theory Spec2Isabelle
  imports Complex_Main "HOL-Library.Stream" "HOL-Library.Word"
begin

section \<open>Conventions of the embedding\<close>

text \<open>
  The C++ sources are embedded as HOL functions.

  \<^item> A \<^verbatim>\<open>float\<close> is a \<^typ>\<open>real\<close>: rounding, infinities and NaN are outside the model, with
    two exceptions. The sums of \<^verbatim>\<open>statistics::from_population\<close> overflow to an infinity when
    they leave the range of \<^verbatim>\<open>float\<close>. The roulette wheel of \<^verbatim>\<open>selection.cc\<close> returns an index
    that depends on comparisons between rounded values: it is modelled over the arithmetic
    of \<^verbatim>\<open>float\<close> as the platform provides it, which is a parameter of the model.
  \<^item> A \<^verbatim>\<open>std::size_t\<close> that only counts elements of a container is a \<^typ>\<open>nat\<close>; the
    counters \<^verbatim>\<open>age_\<close> and \<^verbatim>\<open>generation_\<close> of the simulation are 64-bit words.
  \<^item> A \<^verbatim>\<open>tl::expected<T, E>\<close> is the sum \<open>E + T\<close> (\<open>Inl\<close> the error).
  \<^item> Whatever ends a call without a return value (a C++ exception, a violated precondition
    of \<^verbatim>\<open>nonstd::span\<close>, an access outside a \<^verbatim>\<open>std::vector\<close>) is a \<open>fault\<close>, and a function
    that can end so returns \<open>fault + 'a\<close>: \<open>contract_violation\<close> for a span precondition,
    \<open>undefined_behaviour\<close> for what the C++ standard leaves undefined, \<open>out_of_range\<close> for the
    exception of \<^verbatim>\<open>std::vector::at\<close>, \<open>runtime_error\<close> for a thrown \<^verbatim>\<open>std::runtime_error\<close>.
  \<^item> \<^verbatim>\<open>random_generator\<close> is the stream of the values that its
    \<^verbatim>\<open>default_distribution_(generator_)\<close> is going to return, each in \<open>[-1, 1)\<close>; a function
    that takes a \<^verbatim>\<open>random_generator&\<close> returns the rest of the stream with its result.
\<close>

datatype fault =
    contract_violation
  | undefined_behaviour
  | out_of_range
  | runtime_error string

text \<open>
  \<^verbatim>\<open>nonstd::span::subspan(offset, count)\<close> against a span over \<open>s\<close>: the library expects
  \<open>offset \<le> size\<close> and \<open>offset + count \<le> size\<close>.
\<close>

definition subspan :: "'a list \<Rightarrow> nat \<Rightarrow> nat \<Rightarrow> fault + 'a list" where
  "subspan s offset count =
     (if offset \<le> length s \<and> offset + count \<le> length s
      then Inr (take count (drop offset s))
      else Inl contract_violation)"

section \<open>random/random.h\<close>

type_synonym random_generator = "real stream"

definition generate_weight :: "random_generator \<Rightarrow> real \<times> random_generator" where
  "generate_weight random = (shd random, stl random)"

definition generate_position :: "random_generator \<Rightarrow> real \<times> random_generator" where
  "generate_position random = ((shd random + 1) / 2, stl random)"

definition generate_rotation :: "random_generator \<Rightarrow> real \<times> random_generator" where
  "generate_rotation random =
     (let (p, random1) = generate_position random
      in (p * (314159265358979323846 / 100000000000000000000), random1))"

section \<open>neural\_network: neuron, layer, network\<close>

datatype neuron_error =
    neuron_k_invalid_input_size
  | neuron_k_not_enough_weights
  | neuron_k_invalid_weights_size

datatype layer_error =
    layer_k_invalid_input_size
  | layer_k_not_enough_weights
  | layer_k_empty_neurons
  | layer_k_mismatched_inputs

datatype network_error =
    network_k_invalid_layer_count
  | network_k_invalid_input_size
  | network_k_too_many_weights
  | network_k_not_enough_weights
  | network_k_network_not_initialized
  | network_k_propagation_error
  | network_k_invalid_layer_topology

record neuron =
  neuron_bias :: real
  neuron_weights :: "real list"

record layer =
  layer_neurons :: "neuron list"

record network =
  network_layers :: "layer list"

definition neuron_input_size :: "neuron \<Rightarrow> nat" where
  "neuron_input_size n = length (neuron_weights n)"

definition neuron_to_weights :: "neuron \<Rightarrow> real list" where
  "neuron_to_weights n = neuron_bias n # neuron_weights n"

text \<open>\<^verbatim>\<open>std::inner_product(inputs.begin(), inputs.end(), weights_.begin(), bias_)\<close>\<close>

fun inner_product :: "real list \<Rightarrow> real list \<Rightarrow> real \<Rightarrow> real" where
  "inner_product (x # xs) (w # ws) init = inner_product xs ws (init + x * w)"
| "inner_product _ _ init = init"

definition neuron_propagate :: "neuron \<Rightarrow> real list \<Rightarrow> neuron_error + real" where
  "neuron_propagate n inputs =
     (if length inputs \<noteq> length (neuron_weights n) then Inl neuron_k_invalid_input_size
      else Inr (max 0 (inner_product inputs (neuron_weights n) (neuron_bias n))))"

definition neuron_from_weights :: "nat \<Rightarrow> real list \<Rightarrow> neuron_error + neuron" where
  "neuron_from_weights input_size weights =
     (if length weights \<noteq> input_size + 1 then Inl neuron_k_invalid_weights_size
      else Inr \<lparr>neuron_bias = weights ! 0, neuron_weights = drop 1 weights\<rparr>)"

definition layer_input_size :: "layer \<Rightarrow> nat" where
  "layer_input_size l =
     (if layer_neurons l = [] then 0 else neuron_input_size (hd (layer_neurons l)))"

definition layer_size :: "layer \<Rightarrow> nat" where
  "layer_size l = length (layer_neurons l)"

definition layer_weight_count :: "layer \<Rightarrow> nat" where
  "layer_weight_count l =
     (if layer_neurons l = [] then 0
      else (neuron_input_size (hd (layer_neurons l)) + 1) * length (layer_neurons l))"

definition layer_create :: "neuron list \<Rightarrow> layer_error + layer" where
  "layer_create neurons =
     (if neurons = [] then Inl layer_k_empty_neurons
      else if \<not> list_all (\<lambda>n. neuron_input_size n = neuron_input_size (hd neurons)) neurons
      then Inl layer_k_mismatched_inputs
      else Inr \<lparr>layer_neurons = neurons\<rparr>)"

text \<open>The loop over the neurons of \<^verbatim>\<open>layer::propagate\<close>, with the outputs pushed so far.\<close>

fun layer_propagate_loop :: "neuron list \<Rightarrow> real list \<Rightarrow> real list \<Rightarrow> layer_error + real list" where
  "layer_propagate_loop [] inputs outputs = Inr outputs"
| "layer_propagate_loop (n # ns) inputs outputs =
     (case neuron_propagate n inputs of
        Inl e \<Rightarrow> Inl layer_k_invalid_input_size
      | Inr r \<Rightarrow> layer_propagate_loop ns inputs (outputs @ [r]))"

definition layer_propagate :: "layer \<Rightarrow> real list \<Rightarrow> layer_error + real list" where
  "layer_propagate l inputs =
     (if length inputs \<noteq> layer_input_size l then Inl layer_k_invalid_input_size
      else layer_propagate_loop (layer_neurons l) inputs [])"

text \<open>
  The loop of \<^verbatim>\<open>layer::from_weights\<close>; the third argument counts the iterations still to
  run (\<open>output_size - i\<close>).
\<close>

fun layer_from_weights_loop ::
  "nat \<Rightarrow> real list \<Rightarrow> nat \<Rightarrow> nat \<Rightarrow> neuron list \<Rightarrow> fault + (layer_error + neuron list)" where
  "layer_from_weights_loop input_size weights 0 current_offset neurons = Inr (Inr neurons)"
| "layer_from_weights_loop input_size weights (Suc k) current_offset neurons =
     (case subspan weights current_offset (input_size + 1) of
        Inl f \<Rightarrow> Inl f
      | Inr neuron_span \<Rightarrow>
          (case neuron_from_weights input_size neuron_span of
             Inl e \<Rightarrow> Inr (Inl layer_k_not_enough_weights)
           | Inr n \<Rightarrow>
               layer_from_weights_loop input_size weights k
                 (current_offset + (input_size + 1)) (neurons @ [n])))"

definition layer_from_weights :: "nat \<Rightarrow> nat \<Rightarrow> real list \<Rightarrow> fault + (layer_error + layer)" where
  "layer_from_weights input_size output_size weights =
     (if length weights < (input_size + 1) * output_size
      then Inr (Inl layer_k_not_enough_weights)
      else (case layer_from_weights_loop input_size weights output_size 0 [] of
              Inl f \<Rightarrow> Inl f
            | Inr (Inl e) \<Rightarrow> Inr (Inl e)
            | Inr (Inr neurons) \<Rightarrow> Inr (layer_create neurons)))"

text \<open>
  The loop of \<^verbatim>\<open>network::from_weights\<close> over \<open>i < topology.size() - 1\<close>. A topology entry is
  its neuron count.
\<close>

function network_from_weights_loop ::
  "nat list \<Rightarrow> real list \<Rightarrow> nat \<Rightarrow> nat \<Rightarrow> layer list
     \<Rightarrow> fault + (network_error + (layer list \<times> nat))" where
  "network_from_weights_loop topology weights i current_offset layers =
     (if i < length topology - 1 then
        (let weights_per_layer = (topology ! i + 1) * topology ! (i + 1) in
         case subspan weights current_offset weights_per_layer of
           Inl f \<Rightarrow> Inl f
         | Inr layer_weights \<Rightarrow>
             (case layer_from_weights (topology ! i) (topology ! (i + 1)) layer_weights of
                Inl f \<Rightarrow> Inl f
              | Inr (Inl layer_k_not_enough_weights) \<Rightarrow> Inr (Inl network_k_not_enough_weights)
              | Inr (Inl layer_k_empty_neurons) \<Rightarrow> Inr (Inl network_k_invalid_layer_topology)
              | Inr (Inl layer_k_mismatched_inputs) \<Rightarrow> Inr (Inl network_k_invalid_layer_topology)
              | Inr (Inl layer_k_invalid_input_size) \<Rightarrow> Inr (Inl network_k_invalid_layer_topology)
              | Inr (Inr l) \<Rightarrow>
                  network_from_weights_loop topology weights (i + 1)
                    (current_offset + weights_per_layer) (layers @ [l])))
      else Inr (Inr (layers, current_offset)))"
  by pat_completeness auto
termination
  by (relation "measure (\<lambda>(topology, weights, i, current_offset, layers). length topology - 1 - i)")
     auto

declare network_from_weights_loop.simps [simp del]

definition network_from_weights :: "nat list \<Rightarrow> real list \<Rightarrow> fault + (network_error + network)" where
  "network_from_weights topology weights =
     (if length topology < 2 then Inr (Inl network_k_invalid_layer_count)
      else (case network_from_weights_loop topology weights 0 0 [] of
              Inl f \<Rightarrow> Inl f
            | Inr (Inl e) \<Rightarrow> Inr (Inl e)
            | Inr (Inr (layers, current_offset)) \<Rightarrow>
                if current_offset \<noteq> length weights then Inr (Inl network_k_too_many_weights)
                else Inr (Inr \<lparr>network_layers = layers\<rparr>)))"

text \<open>
  \<^verbatim>\<open>network::weights\<close>: for every layer, for every neuron of the layer, the neuron's
  \<^verbatim>\<open>to_weights()\<close> is appended.
\<close>

definition network_weights :: "network \<Rightarrow> real list" where
  "network_weights net =
     concat (map (\<lambda>l. concat (map neuron_to_weights (layer_neurons l))) (network_layers net))"

definition network_input_size :: "network \<Rightarrow> nat" where
  "network_input_size net =
     (if network_layers net = [] then 0 else layer_input_size (hd (network_layers net)))"

definition network_output_size :: "network \<Rightarrow> nat" where
  "network_output_size net =
     (if network_layers net = [] then 0 else layer_size (last (network_layers net)))"

fun network_propagate_loop :: "layer list \<Rightarrow> real list \<Rightarrow> network_error + real list" where
  "network_propagate_loop [] outputs = Inr outputs"
| "network_propagate_loop (l # ls) outputs =
     (case layer_propagate l outputs of
        Inl e \<Rightarrow> Inl network_k_propagation_error
      | Inr r \<Rightarrow> network_propagate_loop ls r)"

definition network_propagate :: "network \<Rightarrow> real list \<Rightarrow> network_error + real list" where
  "network_propagate net inputs =
     (if network_layers net = [] then Inl network_k_network_not_initialized
      else if length inputs \<noteq> network_input_size net then Inl network_k_invalid_input_size
      else network_propagate_loop (network_layers net) inputs)"


text \<open>The flattening of a list of layers, as \<^verbatim>\<open>network::weights\<close> does it for \<^verbatim>\<open>layers_\<close>.\<close>

definition flat_layers :: "layer list \<Rightarrow> real list" where
  "flat_layers ls = concat (map (\<lambda>l. concat (map neuron_to_weights (layer_neurons l))) ls)"

section \<open>genetic\_algorithm\<close>

datatype genetic_error_code =
    genetic_k_invalid_parent_size
  | genetic_k_invalid_population_size
  | genetic_k_invalid_chromosome
  | genetic_k_invalid_selection
  | genetic_k_selection_failed
  | genetic_k_crossover_failed
  | genetic_k_mutation_failed
  | genetic_k_offspring_creation_failed

record genetic_error =
  error_code :: genetic_error_code
  error_message :: string

type_synonym chromosome = "real list"

text \<open>
  The abstract class \<^verbatim>\<open>individual\<close> together with the static factory that
  \<^verbatim>\<open>genetic_algorithm<T>::create_individual\<close> requires of \<open>T\<close>: the two virtual methods and
  \<^verbatim>\<open>T::from_chromosome\<close>, over the type \<open>'i\<close> of the objects.
\<close>

record 'i individual =
  get_fitness :: "'i \<Rightarrow> real"
  get_chromosome :: "'i \<Rightarrow> chromosome"
  from_chromosome :: "chromosome \<Rightarrow> genetic_error + 'i"

subsection \<open>statistics.h\<close>

text \<open>\<^verbatim>\<open>std::numeric_limits<float>::max()\<close>, that is \<open>(2 - 2\<^sup>-\<^sup>2\<^sup>3) * 2\<^sup>1\<^sup>2\<^sup>7\<close>; \<^verbatim>\<open>lowest()\<close> is its negation.\<close>

definition float_max :: real where
  "float_max = 340282346638528859811704183484516925440"

definition float_lowest :: real where
  "float_lowest = - float_max"

text \<open>
  The values that the statistics hold: a \<^verbatim>\<open>float\<close> computed from finite fitness values is a
  number, an infinity or NaN. The result of an operation on numbers is the exact result
  when it lies in the range of \<^verbatim>\<open>float\<close>, and the infinity of its sign when it lies beyond;
  the other cases are those of IEEE 754, a zero being \<open>+0\<close>.
\<close>

datatype float_value = Finite real | PosInf | NegInf | NaN

definition float_of_real :: "real \<Rightarrow> float_value" where
  "float_of_real r =
     (if r > float_max then PosInf else if r < float_lowest then NegInf else Finite r)"

fun float_add :: "float_value \<Rightarrow> float_value \<Rightarrow> float_value" where
  "float_add (Finite a) (Finite b) = float_of_real (a + b)"
| "float_add NaN _ = NaN"
| "float_add _ NaN = NaN"
| "float_add PosInf NegInf = NaN"
| "float_add NegInf PosInf = NaN"
| "float_add PosInf _ = PosInf"
| "float_add _ PosInf = PosInf"
| "float_add NegInf _ = NegInf"
| "float_add _ NegInf = NegInf"

fun float_div :: "float_value \<Rightarrow> float_value \<Rightarrow> float_value" where
  "float_div (Finite a) (Finite b) =
     (if b = 0 then (if a = 0 then NaN else if a > 0 then PosInf else NegInf)
      else float_of_real (a / b))"
| "float_div (Finite a) PosInf = Finite 0"
| "float_div (Finite a) NegInf = Finite 0"
| "float_div PosInf (Finite b) = (if b \<ge> 0 then PosInf else NegInf)"
| "float_div NegInf (Finite b) = (if b \<ge> 0 then NegInf else PosInf)"
| "float_div PosInf PosInf = NaN"
| "float_div PosInf NegInf = NaN"
| "float_div NegInf PosInf = NaN"
| "float_div NegInf NegInf = NaN"
| "float_div NaN _ = NaN"
| "float_div _ NaN = NaN"

record statistics =
  min_fitness :: float_value
  max_fitness :: float_value
  avg_fitness :: float_value
  median_fitness :: float_value

text \<open>
  The loop of \<^verbatim>\<open>statistics::from_population\<close> over the population; the state is
  \<open>(min_fitness, max_fitness, sum, fitness_values)\<close> (\<open>sum_f\<close> for \<^verbatim>\<open>sum\<close>). The fitness values
  are numbers, and so are their minimum and their maximum; \<^verbatim>\<open>sum\<close> is a \<^verbatim>\<open>float\<close> that can
  overflow.
\<close>

fun from_population_loop ::
  "('i \<Rightarrow> real) \<Rightarrow> 'i list \<Rightarrow> real \<times> real \<times> float_value \<times> real list
     \<Rightarrow> real \<times> real \<times> float_value \<times> real list" where
  "from_population_loop fitness_of [] st = st"
| "from_population_loop fitness_of (ind # rest) (min_f, max_f, sum_f, fitness_values) =
     (let fitness = fitness_of ind
      in from_population_loop fitness_of rest
           (min min_f fitness, max max_f fitness, float_add sum_f (Finite fitness),
            fitness_values @ [fitness]))"

definition from_population :: "('i \<Rightarrow> real) \<Rightarrow> 'i list \<Rightarrow> statistics" where
  "from_population fitness_of population =
     (if population = [] then
        \<lparr>min_fitness = Finite 0, max_fitness = Finite 0, avg_fitness = Finite 0,
         median_fitness = Finite 0\<rparr>
      else
        (let (min_f, max_f, sum_f, fitness_values) =
               from_population_loop fitness_of population
                 (float_max, float_lowest, Finite 0, []);
             avg = float_div sum_f (Finite (real (length population)));
             sorted_values = sort fitness_values;
             median =
               (if sorted_values = [] then Finite 0
                else if length sorted_values mod 2 = 0 then
                  (let mid = length sorted_values div 2
                   in float_div
                        (float_add (Finite (sorted_values ! (mid - 1)))
                           (Finite (sorted_values ! mid)))
                        (Finite 2))
                else Finite (sorted_values ! (length sorted_values div 2)))
         in \<lparr>min_fitness = Finite min_f, max_fitness = Finite max_f, avg_fitness = avg,
              median_fitness = median\<rparr>))"

subsection \<open>selection.cc: roulette wheel\<close>

text \<open>
  The arithmetic of \<^verbatim>\<open>float\<close> that \<^verbatim>\<open>roulette_wheel_selection::select\<close> uses, over the type
  \<open>'f\<close> of the \<^verbatim>\<open>float\<close> values: the \<^verbatim>\<open>float\<close> of a literal or of a value that the generator
  returns, the sum, the product, and the comparisons \<^verbatim>\<open><\<close> and \<^verbatim>\<open>>=\<close>. The platform defines
  them, with its rounding, its infinities and its NaN; the model assumes nothing of them.
\<close>

record 'f float_arith =
  f_val :: "real \<Rightarrow> 'f"
  f_add :: "'f \<Rightarrow> 'f \<Rightarrow> 'f"
  f_mul :: "'f \<Rightarrow> 'f \<Rightarrow> 'f"
  f_less :: "'f \<Rightarrow> 'f \<Rightarrow> bool"
  f_ge :: "'f \<Rightarrow> 'f \<Rightarrow> bool"

text \<open>The arithmetic of the convention \<^verbatim>\<open>float\<close> as \<^typ>\<open>real\<close>, which the simulation uses.\<close>

definition real_arith :: "real float_arith" where
  "real_arith =
     \<lparr>f_val = (\<lambda>r. r), f_add = (\<lambda>a b. a + b), f_mul = (\<lambda>a b. a * b),
      f_less = (\<lambda>a b. a < b), f_ge = (\<lambda>a b. a \<ge> b)\<rparr>"

text \<open>\<^verbatim>\<open>std::max(a, b)\<close> is \<^verbatim>\<open>(a < b) ? b : a\<close>.\<close>

definition std_max :: "'f float_arith \<Rightarrow> 'f \<Rightarrow> 'f \<Rightarrow> 'f" where
  "std_max arith a b = (if f_less arith a b then b else a)"

definition k_min_individual_fitness :: real where
  "k_min_individual_fitness = 1 / 100000"

fun total_fitness_loop :: "'f float_arith \<Rightarrow> ('i \<Rightarrow> 'f) \<Rightarrow> 'i list \<Rightarrow> 'f \<Rightarrow> 'f" where
  "total_fitness_loop arith fitness_of [] total_fitness = total_fitness"
| "total_fitness_loop arith fitness_of (ind # rest) total_fitness =
     total_fitness_loop arith fitness_of rest
       (f_add arith total_fitness
          (std_max arith (fitness_of ind) (f_val arith k_min_individual_fitness)))"

text \<open>
  The search loop of \<^verbatim>\<open>roulette_wheel_selection::select\<close>: \<open>Some i\<close> when the loop returns
  \<open>i\<close>, \<open>None\<close> when it runs to its end. The index of the code is an \<^verbatim>\<open>int\<close>
  (\<^verbatim>\<open>auto i = 0\<close>), which holds every index of a population of at most \<open>2147483647\<close>
  individuals; the model follows the code for these populations.
\<close>

function roulette_loop ::
  "'f float_arith \<Rightarrow> ('i \<Rightarrow> 'f) \<Rightarrow> 'i list \<Rightarrow> 'f \<Rightarrow> nat \<Rightarrow> 'f \<Rightarrow> nat option" where
  "roulette_loop arith fitness_of population selection_point i cumulative_fitness =
     (if i < length population then
        (let cumulative_fitness' =
               f_add arith cumulative_fitness
                 (std_max arith (fitness_of (population ! i))
                    (f_val arith k_min_individual_fitness))
         in if f_ge arith cumulative_fitness' selection_point then Some i
            else roulette_loop arith fitness_of population selection_point (i + 1)
                   cumulative_fitness')
      else None)"
  by pat_completeness auto
termination
  by (relation "measure (\<lambda>(arith, fitness_of, population, selection_point, i, c).
                  length population - i)")
     auto

declare roulette_loop.simps [simp del]

definition roulette_wheel_select ::
  "'f float_arith \<Rightarrow> ('i \<Rightarrow> 'f) \<Rightarrow> 'i list \<Rightarrow> random_generator
     \<Rightarrow> (genetic_error + nat) \<times> random_generator" where
  "roulette_wheel_select arith fitness_of population random =
     (if population = [] then
        (Inl \<lparr>error_code = genetic_k_invalid_population_size,
              error_message = ''Population must not be empty''\<rparr>, random)
      else
        (let total_fitness = total_fitness_loop arith fitness_of population (f_val arith 0);
             (position, random1) = generate_position random;
             selection_point = f_mul arith (f_val arith position) total_fitness
         in case roulette_loop arith fitness_of population selection_point 0 (f_val arith 0) of
              Some i \<Rightarrow> (Inr i, random1)
            | None \<Rightarrow> (Inr (length population - 1), random1)))"

subsection \<open>crossover.cc: uniform crossover\<close>

text \<open>
  The loop of \<^verbatim>\<open>uniform_crossover::crossover\<close> over the gene positions; it runs only when
  both parents have the same size, and returns the genes pushed to \<^verbatim>\<open>child_genes\<close>.
\<close>

fun uniform_crossover_loop ::
  "real \<Rightarrow> chromosome \<Rightarrow> chromosome \<Rightarrow> random_generator \<Rightarrow> chromosome \<times> random_generator" where
  "uniform_crossover_loop swap_probability (g1 # parent1) (g2 # parent2) random =
     (let (w, random1) = generate_weight random;
          gene = (if w < swap_probability then g1 else g2);
          (child_genes, random2) = uniform_crossover_loop swap_probability parent1 parent2 random1
      in (gene # child_genes, random2))"
| "uniform_crossover_loop swap_probability _ _ random = ([], random)"

definition uniform_crossover ::
  "real \<Rightarrow> chromosome \<Rightarrow> chromosome \<Rightarrow> random_generator
     \<Rightarrow> (genetic_error + chromosome) \<times> random_generator" where
  "uniform_crossover swap_probability parent1 parent2 random =
     (if length parent1 \<noteq> length parent2 then
        (Inl \<lparr>error_code = genetic_k_invalid_parent_size,
              error_message = ''Parent chromosomes must have the same size''\<rparr>, random)
      else
        (let (child_genes, random1) =
               uniform_crossover_loop swap_probability parent1 parent2 random
         in (Inr child_genes, random1)))"

subsection \<open>mutation.cc: gaussian mutation\<close>

fun gaussian_mutation_loop ::
  "real \<Rightarrow> real \<Rightarrow> chromosome \<Rightarrow> random_generator \<Rightarrow> chromosome \<times> random_generator" where
  "gaussian_mutation_loop mutation_probability mutation_strength [] random = ([], random)"
| "gaussian_mutation_loop mutation_probability mutation_strength (gene # child) random =
     (let (p, random1) = generate_position random;
          (gene', random2) =
            (if p < mutation_probability then
               (let (m, random2) = generate_position random1;
                    mutation = m * mutation_strength;
                    (w, random3) = generate_weight random2;
                    mutation' = (if w > 0 then mutation else - mutation)
                in (gene + mutation', random3))
             else (gene, random1));
          (child', random4) =
            gaussian_mutation_loop mutation_probability mutation_strength child random2
      in (gene' # child', random4))"

definition gaussian_mutation ::
  "real \<Rightarrow> real \<Rightarrow> chromosome \<Rightarrow> random_generator
     \<Rightarrow> (genetic_error + chromosome) \<times> random_generator" where
  "gaussian_mutation mutation_probability mutation_strength child random =
     (let (child', random1) =
            gaussian_mutation_loop mutation_probability mutation_strength child random
      in (Inr child', random1))"

subsection \<open>genetic\_algorithm.h: evolve\<close>

text \<open>
  The three strategy objects of a \<^verbatim>\<open>genetic_algorithm\<close>, each as the function its virtual
  method computes. \<^verbatim>\<open>mutate\<close> changes the child in place: the model returns the changed
  chromosome.
\<close>

record 'i genetic_algorithm =
  selection :: "'i list \<Rightarrow> random_generator \<Rightarrow> (genetic_error + nat) \<times> random_generator"
  crossover ::
    "chromosome \<Rightarrow> chromosome \<Rightarrow> random_generator
       \<Rightarrow> (genetic_error + chromosome) \<times> random_generator"
  mutation ::
    "chromosome \<Rightarrow> random_generator \<Rightarrow> (genetic_error + chromosome) \<times> random_generator"

text \<open>
  The body of the \<^verbatim>\<open>while\<close> loop of \<^verbatim>\<open>evolve\<close>, up to the new individual that the loop
  appends. \<^verbatim>\<open>population[index]\<close> is \<^verbatim>\<open>nonstd::span::operator[]\<close>, which expects
  \<open>index < size\<close>.
\<close>

definition evolve_offspring ::
  "'i individual \<Rightarrow> 'i genetic_algorithm \<Rightarrow> 'i list \<Rightarrow> random_generator
     \<Rightarrow> (fault + (genetic_error + 'i)) \<times> random_generator" where
  "evolve_offspring T ga population random =
     (case selection ga population random of
        (Inl e, random1) \<Rightarrow> (Inr (Inl e), random1)
      | (Inr parent_a, random1) \<Rightarrow>
      (case selection ga population random1 of
        (Inl e, random2) \<Rightarrow> (Inr (Inl e), random2)
      | (Inr parent_b, random2) \<Rightarrow>
      if \<not> (parent_a < length population \<and> parent_b < length population)
      then (Inl contract_violation, random2)
      else
      (case crossover ga (get_chromosome T (population ! parent_a))
              (get_chromosome T (population ! parent_b)) random2 of
        (Inl e, random3) \<Rightarrow> (Inr (Inl e), random3)
      | (Inr child_chromosome, random3) \<Rightarrow>
      (case mutation ga child_chromosome random3 of
        (Inl e, random4) \<Rightarrow> (Inr (Inl e), random4)
      | (Inr mutated, random4) \<Rightarrow>
      (case from_chromosome T mutated of
        Inl e \<Rightarrow> (Inr (Inl e), random4)
      | Inr new_individual \<Rightarrow> (Inr (Inr new_individual), random4))))))"

text \<open>The \<^verbatim>\<open>while\<close> loop of \<^verbatim>\<open>evolve\<close>.\<close>

function evolve_loop ::
  "'i individual \<Rightarrow> 'i genetic_algorithm \<Rightarrow> 'i list \<Rightarrow> 'i list \<Rightarrow> random_generator
     \<Rightarrow> (fault + (genetic_error + 'i list)) \<times> random_generator" where
  "evolve_loop T ga population next_generation random =
     (if length next_generation < length population then
        (case evolve_offspring T ga population random of
           (Inl f, random1) \<Rightarrow> (Inl f, random1)
         | (Inr (Inl e), random1) \<Rightarrow> (Inr (Inl e), random1)
         | (Inr (Inr new_individual), random1) \<Rightarrow>
             evolve_loop T ga population (next_generation @ [new_individual]) random1)
      else (Inr (Inr next_generation), random))"
  by pat_completeness auto
termination
  by (relation "measure (\<lambda>(T, ga, population, next_generation, random).
                  length population - length next_generation)")
     auto

declare evolve_loop.simps [simp del]

definition evolve ::
  "'i individual \<Rightarrow> 'i genetic_algorithm \<Rightarrow> 'i list \<Rightarrow> random_generator
     \<Rightarrow> (fault + (genetic_error + ('i list \<times> statistics))) \<times> random_generator" where
  "evolve T ga population random =
     (if population = [] then
        (Inr (Inl \<lparr>error_code = genetic_k_invalid_population_size,
                   error_message = ''Population cannot be empty''\<rparr>), random)
      else
        (let stats = from_population (get_fitness T) population
         in case evolve_loop T ga population [] random of
              (Inl f, random1) \<Rightarrow> (Inl f, random1)
            | (Inr (Inl e), random1) \<Rightarrow> (Inr (Inl e), random1)
            | (Inr (Inr next_generation), random1) \<Rightarrow>
                (Inr (Inr (next_generation, stats)), random1)))"


text \<open>
  The state \<open>(next_generation, random_gen)\<close> of the loop of \<^verbatim>\<open>evolve\<close> after \<open>k\<close> iterations
  that each appended an individual; \<open>None\<close> when the loop does not get that far.
\<close>

fun evolve_state_after ::
  "'i individual \<Rightarrow> 'i genetic_algorithm \<Rightarrow> 'i list \<Rightarrow> random_generator \<Rightarrow> nat
     \<Rightarrow> ('i list \<times> random_generator) option" where
  "evolve_state_after T ga population random 0 = Some ([], random)"
| "evolve_state_after T ga population random (Suc k) =
     (case evolve_state_after T ga population random k of
        None \<Rightarrow> None
      | Some (next_generation, random1) \<Rightarrow>
          if length next_generation < length population then
            (case evolve_offspring T ga population random1 of
               (Inr (Inr new_individual), random2) \<Rightarrow>
                 Some (next_generation @ [new_individual], random2)
             | _ \<Rightarrow> None)
          else None)"

section \<open>simulation\<close>

subsection \<open>Arithmetic of the C++ library\<close>

text \<open>Conversion of a floating-point value to an integer type truncates towards zero.\<close>

definition c_trunc :: "real \<Rightarrow> int" where
  "c_trunc r = (if r \<ge> 0 then \<lfloor>r\<rfloor> else \<lceil>r\<rceil>)"

text \<open>\<^verbatim>\<open>std::fmod(x, y)\<close> for \<open>y \<noteq> 0\<close>: \<open>x - n * y\<close> with \<open>n\<close> the quotient truncated towards zero.\<close>

definition c_fmod :: "real \<Rightarrow> real \<Rightarrow> real" where
  "c_fmod x y = x - real_of_int (c_trunc (x / y)) * y"

text \<open>\<^verbatim>\<open>static_cast<int>(float)\<close>: undefined when the truncated value is no \<^verbatim>\<open>int\<close>.\<close>

definition float_to_int :: "real \<Rightarrow> fault + int" where
  "float_to_int r =
     (let t = c_trunc r
      in if - 2147483648 \<le> t \<and> t \<le> 2147483647 then Inr t else Inl undefined_behaviour)"

text \<open>
  \<^verbatim>\<open>static_cast<int>(cells_ - 1)\<close> for a \<^verbatim>\<open>size_t\<close>: the subtraction wraps at zero and the
  conversion keeps the low 32 bits, read as a signed number.
\<close>

definition size_minus_one_to_int :: "nat \<Rightarrow> int" where
  "size_minus_one_to_int n = sint (word_of_int (int n - 1) :: 32 word)"

text \<open>\<^verbatim>\<open>std::clamp(v, lo, hi)\<close>, as the standard's reference implementation computes it.\<close>

definition std_clamp :: "real \<Rightarrow> real \<Rightarrow> real \<Rightarrow> real" where
  "std_clamp v lo hi = (if v < lo then lo else if hi < v then hi else v)"

text \<open>\<^verbatim>\<open>atan2f(y, x)\<close>: the angle of the point \<open>(x, y)\<close>, in \<open>[-\<pi>, \<pi>]\<close>.\<close>

definition c_atan2 :: "real \<Rightarrow> real \<Rightarrow> real" where
  "c_atan2 y x =
     (if x > 0 then arctan (y / x)
      else if x < 0 \<and> y \<ge> 0 then arctan (y / x) + pi
      else if x < 0 \<and> y < 0 then arctan (y / x) - pi
      else if y > 0 then pi / 2
      else if y < 0 then - pi / 2
      else 0)"

subsection \<open>constants.h, config.h\<close>

text \<open>
  \<^verbatim>\<open>k_pi\<close> is the \<^verbatim>\<open>float\<close> nearest to \<open>\<pi>\<close>, which is also the largest value that \<^verbatim>\<open>atan2f\<close>
  returns: as a real it is \<open>\<pi>\<close>. The other constants are computed from it.
\<close>

definition k_pi :: real where
  "k_pi = pi"

definition k_two_pi :: real where
  "k_two_pi = k_pi * 2"

definition k_deg_to_rad :: real where
  "k_deg_to_rad = k_pi / 180"

definition k_degree_to_radian :: real where
  "k_degree_to_radian = k_pi / 180"

record world_config =
  num_foods :: nat
  num_animals :: nat
  food_size :: real
  bird_size :: real

record brain_eye_config =
  fov_range :: real
  fov_angle_deg :: real
  num_cells :: nat
  num_neurons :: nat

record sim_config =
  speed_min :: real
  speed_max :: real
  speed_accel :: real
  rotation_accel_deg :: real
  generation_length :: "64 word"

record genetic_config =
  mutation_chance :: real
  mutation_coeff :: real
  reverse :: bool

record config =
  brain_eye :: brain_eye_config
  genetic :: genetic_config
  sim :: sim_config
  world :: world_config

subsection \<open>vector2d.h, food.cc\<close>

record vector2d =
  x_value :: real
  y_value :: real

definition vector2d_minus :: "vector2d \<Rightarrow> vector2d \<Rightarrow> vector2d" where
  "vector2d_minus lhs rhs =
     \<lparr>x_value = x_value lhs - x_value rhs, y_value = y_value lhs - y_value rhs\<rparr>"

text \<open>\<^verbatim>\<open>hypotf(x_value_, y_value_)\<close>\<close>

definition vector2d_length :: "vector2d \<Rightarrow> real" where
  "vector2d_length v = sqrt ((x_value v)\<^sup>2 + (y_value v)\<^sup>2)"

record food =
  food_position :: vector2d

definition randomize_position :: "food \<Rightarrow> random_generator \<Rightarrow> food \<times> random_generator" where
  "randomize_position f random =
     (let (px, random1) = generate_position random;
          (py, random2) = generate_position random1
      in (f\<lparr>food_position := \<lparr>x_value = px, y_value = py\<rparr>\<rparr>, random2))"

subsection \<open>eye.cc\<close>

record eye =
  eye_fov_range :: real
  eye_fov_angle :: real
  eye_cells :: nat

definition eye_of_config :: "brain_eye_config \<Rightarrow> eye" where
  "eye_of_config cfg =
     \<lparr>eye_fov_range = fov_range cfg,
      eye_fov_angle = fov_angle_deg cfg * k_degree_to_radian,
      eye_cells = num_cells cfg\<rparr>"

text \<open>\<^verbatim>\<open>while (angle_diff > constants::k_pi) angle_diff -= constants::k_two_pi;\<close>\<close>

function normalize_down :: "real \<Rightarrow> real" where
  "normalize_down angle_diff =
     (if angle_diff > k_pi then normalize_down (angle_diff - k_two_pi) else angle_diff)"
  by pat_completeness auto
termination
proof (relation "measure (\<lambda>a. nat \<lceil>(a - k_pi) / k_two_pi\<rceil>)")
  show "wf (measure (\<lambda>a. nat \<lceil>(a - k_pi) / k_two_pi\<rceil>))" by simp
next
  fix angle_diff :: real
  assume gt: "k_pi < angle_diff"
  have pos: "0 < k_two_pi" by (simp add: k_two_pi_def k_pi_def)
  have "(angle_diff - k_two_pi - k_pi) / k_two_pi = (angle_diff - k_pi) / k_two_pi - 1"
    using pos by (simp add: field_simps)
  then have "\<lceil>(angle_diff - k_two_pi - k_pi) / k_two_pi\<rceil> = \<lceil>(angle_diff - k_pi) / k_two_pi\<rceil> - 1"
    by simp
  moreover have "0 < (angle_diff - k_pi) / k_two_pi" using gt pos by simp
  then have "0 < \<lceil>(angle_diff - k_pi) / k_two_pi\<rceil>" by linarith
  ultimately show "(angle_diff - k_two_pi, angle_diff)
      \<in> measure (\<lambda>a. nat \<lceil>(a - k_pi) / k_two_pi\<rceil>)"
    by simp
qed

declare normalize_down.simps [simp del]

text \<open>\<^verbatim>\<open>while (angle_diff < -constants::k_pi) angle_diff += constants::k_two_pi;\<close>\<close>

function normalize_up :: "real \<Rightarrow> real" where
  "normalize_up angle_diff =
     (if angle_diff < - k_pi then normalize_up (angle_diff + k_two_pi) else angle_diff)"
  by pat_completeness auto
termination
proof (relation "measure (\<lambda>a. nat \<lceil>(- k_pi - a) / k_two_pi\<rceil>)")
  show "wf (measure (\<lambda>a. nat \<lceil>(- k_pi - a) / k_two_pi\<rceil>))" by simp
next
  fix angle_diff :: real
  assume lt: "angle_diff < - k_pi"
  have pos: "0 < k_two_pi" by (simp add: k_two_pi_def k_pi_def)
  have "(- k_pi - (angle_diff + k_two_pi)) / k_two_pi = (- k_pi - angle_diff) / k_two_pi - 1"
    using pos by (simp add: field_simps)
  then have "\<lceil>(- k_pi - (angle_diff + k_two_pi)) / k_two_pi\<rceil> = \<lceil>(- k_pi - angle_diff) / k_two_pi\<rceil> - 1"
    by simp
  moreover have "0 < (- k_pi - angle_diff) / k_two_pi" using lt pos by simp
  then have "0 < \<lceil>(- k_pi - angle_diff) / k_two_pi\<rceil>" by linarith
  ultimately show "(angle_diff + k_two_pi, angle_diff)
      \<in> measure (\<lambda>a. nat \<lceil>(- k_pi - a) / k_two_pi\<rceil>)"
    by simp
qed

declare normalize_up.simps [simp del]

text \<open>
  The loop of \<^verbatim>\<open>eye::process_vision\<close> over the food items. \<^verbatim>\<open>cells[cell] += ...\<close> is
  \<^verbatim>\<open>std::vector::operator[]\<close>, undefined outside the vector.
\<close>

fun process_vision_loop ::
  "eye \<Rightarrow> vector2d \<Rightarrow> real \<Rightarrow> food list \<Rightarrow> real list \<Rightarrow> fault + real list" where
  "process_vision_loop e position rotation [] cells = Inr cells"
| "process_vision_loop e position rotation (food_value # food_items) cells =
     (let to_food = vector2d_minus (food_position food_value) position;
          distance = vector2d_length to_food
      in if distance > eye_fov_range e then
           process_vision_loop e position rotation food_items cells
         else
           (let to_food_angle = c_atan2 (x_value to_food) (y_value to_food);
                angle_diff = normalize_up (normalize_down (to_food_angle - rotation));
                fov_half_rad = eye_fov_angle e / 2
            in if \<bar>angle_diff\<bar> > fov_half_rad then
                 process_vision_loop e position rotation food_items cells
               else
                 (case float_to_int
                         ((angle_diff + fov_half_rad) / eye_fov_angle e * real (eye_cells e)) of
                    Inl f \<Rightarrow> Inl f
                  | Inr cell0 \<Rightarrow>
                      (let cell = min cell0 (size_minus_one_to_int (eye_cells e))
                       in if 0 \<le> cell \<and> cell < int (length cells) then
                            process_vision_loop e position rotation food_items
                              (cells[nat cell := cells ! nat cell
                                 + (eye_fov_range e - distance) / eye_fov_range e])
                          else Inl undefined_behaviour))))"

definition process_vision :: "eye \<Rightarrow> vector2d \<Rightarrow> real \<Rightarrow> food list \<Rightarrow> fault + real list" where
  "process_vision e position rotation food_items =
     process_vision_loop e position rotation food_items (replicate (eye_cells e) 0)"


subsection \<open>brain.cc\<close>

datatype simulation_error =
    simulation_k_none
  | simulation_k_neural_network_error
  | simulation_k_invalid_network_weights
  | simulation_k_insufficient_outputs
  | simulation_k_invalid_input_size
  | simulation_k_layer_propagation_failed
  | simulation_k_invalid_network_structure
  | simulation_k_world_bounds_error
  | simulation_k_configuration_error
  | simulation_k_invalid_brain_config
  | simulation_k_invalid_chromosome
  | simulation_k_brain_operation_failed

record brain =
  brain_speed_accel :: real
  brain_rotation_accel :: real
  brain_network :: network

definition brain_of_network :: "config \<Rightarrow> network \<Rightarrow> brain" where
  "brain_of_network cfg net =
     \<lparr>brain_speed_accel = speed_accel (sim cfg),
      brain_rotation_accel = rotation_accel_deg (sim cfg) * k_deg_to_rad,
      brain_network = net\<rparr>"

definition brain_propagate :: "brain \<Rightarrow> real list \<Rightarrow> simulation_error + real list" where
  "brain_propagate b vision =
     (case network_propagate (brain_network b) vision of
        Inl network_k_invalid_input_size \<Rightarrow> Inl simulation_k_invalid_input_size
      | Inl network_k_propagation_error \<Rightarrow> Inl simulation_k_layer_propagation_failed
      | Inl network_k_invalid_layer_count \<Rightarrow> Inl simulation_k_invalid_network_structure
      | Inl _ \<Rightarrow> Inl simulation_k_neural_network_error
      | Inr response \<Rightarrow>
          if length response < 2 then Inl simulation_k_insufficient_outputs
          else
            (let r0 = std_clamp (response ! 0) 0 1 - 1 / 2;
                 r1 = std_clamp (response ! 1) 0 1 - 1 / 2;
                 speed = std_clamp (r0 + r1) (- brain_speed_accel b) (brain_speed_accel b);
                 rotation =
                   std_clamp (r0 - r1) (- brain_rotation_accel b) (brain_rotation_accel b)
             in Inr [speed, rotation]))"

definition brain_weights :: "brain \<Rightarrow> real list" where
  "brain_weights b = network_weights (brain_network b)"

definition brain_topology :: "config \<Rightarrow> nat list" where
  "brain_topology cfg = [num_cells (brain_eye cfg), num_neurons (brain_eye cfg), 2]"

definition brain_from_chromosome ::
  "config \<Rightarrow> chromosome \<Rightarrow> fault + (simulation_error + brain)" where
  "brain_from_chromosome cfg chr =
     (case network_from_weights (brain_topology cfg) chr of
        Inl f \<Rightarrow> Inl f
      | Inr (Inl network_k_invalid_layer_count) \<Rightarrow> Inr (Inl simulation_k_invalid_brain_config)
      | Inr (Inl network_k_not_enough_weights) \<Rightarrow> Inr (Inl simulation_k_invalid_chromosome)
      | Inr (Inl network_k_too_many_weights) \<Rightarrow> Inr (Inl simulation_k_invalid_chromosome)
      | Inr (Inl network_k_invalid_layer_topology) \<Rightarrow> Inr (Inl simulation_k_invalid_brain_config)
      | Inr (Inl network_k_network_not_initialized) \<Rightarrow>
          Inr (Inl simulation_k_brain_operation_failed)
      | Inr (Inl network_k_invalid_input_size) \<Rightarrow> Inr (Inl simulation_k_brain_operation_failed)
      | Inr (Inl network_k_propagation_error) \<Rightarrow> Inr (Inl simulation_k_brain_operation_failed)
      | Inr (Inr net) \<Rightarrow> Inr (Inr (brain_of_network cfg net)))"

subsection \<open>animal.cc\<close>

record animal =
  animal_position :: vector2d
  animal_rotation :: real
  animal_vision :: "real list"
  animal_speed :: real
  animal_eye :: eye
  animal_brain :: brain
  animal_food_eaten :: nat

definition wrap :: "real \<Rightarrow> real \<Rightarrow> real \<Rightarrow> real" where
  "wrap v lo hi =
     (let width = hi - lo;
          wrapped_value = c_fmod (v - lo) width;
          wrapped_value' = (if wrapped_value < 0 then wrapped_value + width else wrapped_value)
      in wrapped_value' + lo)"

text \<open>
  The private constructor \<^verbatim>\<open>animal(config, random, brain)\<close>. The two coordinates are the
  arguments of one constructor call, \<^verbatim>\<open>position_(generate_position(), generate_position())\<close>,
  and C++ does not say which is evaluated first: the model takes the order of g++, which
  draws the second coordinate before the first.
\<close>

definition animal_new :: "config \<Rightarrow> random_generator \<Rightarrow> brain \<Rightarrow> animal \<times> random_generator" where
  "animal_new cfg random b =
     (let (py, random1) = generate_position random;
          (px, random2) = generate_position random1;
          (rot, random3) = generate_rotation random2
      in (\<lparr>animal_position = \<lparr>x_value = px, y_value = py\<rparr>,
           animal_rotation = rot,
           animal_vision = [],
           animal_speed = speed_max (sim cfg),
           animal_eye = eye_of_config (brain_eye cfg),
           animal_brain = b,
           animal_food_eaten = 0\<rparr>, random3))"

text \<open>
  \<^verbatim>\<open>animal::process_brain\<close>. \<^verbatim>\<open>outputs_result.value().at(i)\<close> throws \<^verbatim>\<open>std::out_of_range\<close> for
  \<open>i\<close> outside the vector.
\<close>

definition process_brain :: "config \<Rightarrow> food list \<Rightarrow> animal \<Rightarrow> fault + animal" where
  "process_brain cfg foods a =
     (case process_vision (animal_eye a) (animal_position a) (animal_rotation a) foods of
        Inl f \<Rightarrow> Inl f
      | Inr vision \<Rightarrow>
          (let a1 = a\<lparr>animal_vision := vision\<rparr>
           in case brain_propagate (animal_brain a1) (animal_vision a1) of
                Inl e \<Rightarrow> Inr a1
              | Inr outputs \<Rightarrow>
                  if \<not> 0 < length outputs then Inl out_of_range
                  else
                    (let a2 = a1\<lparr>animal_speed := animal_speed a1 + outputs ! 0\<rparr>;
                         a3 = a2\<lparr>animal_speed :=
                                 std_clamp (animal_speed a2) (speed_min (sim cfg))
                                   (speed_max (sim cfg))\<rparr>
                     in if \<not> 1 < length outputs then Inl out_of_range
                        else
                          (let a4 = a3\<lparr>animal_rotation := animal_rotation a3 + outputs ! 1\<rparr>;
                               a5 = a4\<lparr>animal_rotation :=
                                       c_fmod (animal_rotation a4) k_two_pi\<rparr>
                           in Inr a5))))"

definition process_movement :: "animal \<Rightarrow> animal" where
  "process_movement a =
     (let new_x = x_value (animal_position a) + animal_speed a * cos (animal_rotation a);
          new_y = y_value (animal_position a) + animal_speed a * sin (animal_rotation a)
      in a\<lparr>animal_position := \<lparr>x_value = wrap new_x 0 1, y_value = wrap new_y 0 1\<rparr>\<rparr>)"

definition animal_from_chromosome ::
  "config \<Rightarrow> random_generator \<Rightarrow> chromosome
     \<Rightarrow> (fault + (simulation_error + animal)) \<times> random_generator" where
  "animal_from_chromosome cfg random chr =
     (case brain_from_chromosome cfg chr of
        Inl f \<Rightarrow> (Inl f, random)
      | Inr (Inl e) \<Rightarrow> (Inr (Inl simulation_k_invalid_chromosome), random)
      | Inr (Inr b) \<Rightarrow> (let (a, random1) = animal_new cfg random b in (Inr (Inr a), random1)))"

definition as_chromosome :: "animal \<Rightarrow> chromosome" where
  "as_chromosome a = brain_weights (animal_brain a)"

subsection \<open>animal\_individual.cc\<close>

record animal_individual =
  individual_chromosome :: chromosome
  individual_food_eaten :: nat

definition animal_individual_class :: "animal_individual individual" where
  "animal_individual_class =
     \<lparr>get_fitness = (\<lambda>i. real (individual_food_eaten i)),
      get_chromosome = individual_chromosome,
      from_chromosome =
        (\<lambda>chr. Inr \<lparr>individual_chromosome = chr, individual_food_eaten = 0\<rparr>)\<rparr>"

definition from_animal :: "animal \<Rightarrow> animal_individual" where
  "from_animal a =
     \<lparr>individual_chromosome = as_chromosome a, individual_food_eaten = animal_food_eaten a\<rparr>"

text \<open>
  \<^verbatim>\<open>invert_fitness(const size_t max_value)\<close>, called with a \<^verbatim>\<open>float\<close>: the argument is
  converted to \<^verbatim>\<open>size_t\<close> by truncation.
\<close>

definition invert_fitness :: "real \<Rightarrow> animal_individual \<Rightarrow> animal_individual" where
  "invert_fitness max_value i =
     i\<lparr>individual_food_eaten := nat (c_trunc max_value) - individual_food_eaten i\<rparr>"

definition into_animal ::
  "config \<Rightarrow> random_generator \<Rightarrow> animal_individual
     \<Rightarrow> (fault + animal) \<times> random_generator" where
  "into_animal cfg random i =
     (case animal_from_chromosome cfg random (individual_chromosome i) of
        (Inl f, random1) \<Rightarrow> (Inl f, random1)
      | (Inr (Inl e), random1) \<Rightarrow>
          (Inl (runtime_error ''Failed to create animal from chromosome''), random1)
      | (Inr (Inr a), random1) \<Rightarrow> (Inr a, random1))"

subsection \<open>world.h, simulation.cc\<close>

record world_state =
  world_animals :: "animal list"
  world_foods :: "food list"

record simulation =
  simulation_config :: config
  simulation_world :: world_state
  simulation_age :: "64 word"
  simulation_generation :: "64 word"

record simulation_statistics =
  generation :: "64 word"
  ga_stats :: statistics

text \<open>The inner loop of \<^verbatim>\<open>process_collisions\<close>: one animal against every food.\<close>

fun collide_foods ::
  "config \<Rightarrow> animal \<Rightarrow> food list \<Rightarrow> random_generator
     \<Rightarrow> animal \<times> food list \<times> random_generator" where
  "collide_foods cfg a [] random = (a, [], random)"
| "collide_foods cfg a (f # foods) random =
     (let disx = x_value (animal_position a) - x_value (food_position f);
          disy = y_value (animal_position a) - y_value (food_position f);
          distance = sqrt (disx * disx + disy * disy);
          collision_distance = food_size (world cfg) + bird_size (world cfg);
          (a1, f1, random1) =
            (if distance \<le> collision_distance then
               (let (f', random') = randomize_position f random
                in (a\<lparr>animal_food_eaten := animal_food_eaten a + 1\<rparr>, f', random'))
             else (a, f, random));
          (a2, foods', random2) = collide_foods cfg a1 foods random1
      in (a2, f1 # foods', random2))"

fun process_collisions_loop ::
  "config \<Rightarrow> animal list \<Rightarrow> food list \<Rightarrow> random_generator
     \<Rightarrow> animal list \<times> food list \<times> random_generator" where
  "process_collisions_loop cfg [] foods random = ([], foods, random)"
| "process_collisions_loop cfg (a # animals) foods random =
     (let (a', foods1, random1) = collide_foods cfg a foods random;
          (animals', foods2, random2) = process_collisions_loop cfg animals foods1 random1
      in (a' # animals', foods2, random2))"

definition process_collisions ::
  "simulation \<Rightarrow> random_generator \<Rightarrow> simulation \<times> random_generator" where
  "process_collisions s random =
     (let (animals', foods', random1) =
            process_collisions_loop (simulation_config s) (world_animals (simulation_world s))
              (world_foods (simulation_world s)) random
      in (s\<lparr>simulation_world := \<lparr>world_animals = animals', world_foods = foods'\<rparr>\<rparr>, random1))"

fun process_brains_loop :: "config \<Rightarrow> food list \<Rightarrow> animal list \<Rightarrow> fault + animal list" where
  "process_brains_loop cfg foods [] = Inr []"
| "process_brains_loop cfg foods (a # animals) =
     (case process_brain cfg foods a of
        Inl f \<Rightarrow> Inl f
      | Inr a' \<Rightarrow>
          (case process_brains_loop cfg foods animals of
             Inl f \<Rightarrow> Inl f
           | Inr animals' \<Rightarrow> Inr (a' # animals')))"

definition process_brains :: "simulation \<Rightarrow> fault + simulation" where
  "process_brains s =
     (case process_brains_loop (simulation_config s) (world_foods (simulation_world s))
             (world_animals (simulation_world s)) of
        Inl f \<Rightarrow> Inl f
      | Inr animals' \<Rightarrow>
          Inr (s\<lparr>simulation_world := (simulation_world s)\<lparr>world_animals := animals'\<rparr>\<rparr>))"

definition process_movements :: "simulation \<Rightarrow> simulation" where
  "process_movements s =
     s\<lparr>simulation_world :=
         (simulation_world s)\<lparr>world_animals :=
            map process_movement (world_animals (simulation_world s))\<rparr>\<rparr>"

text \<open>\<^verbatim>\<open>std::max_element\<close> over a non-empty vector of individuals, then \<^verbatim>\<open>get_fitness()\<close>.\<close>

fun max_element_loop :: "real \<Rightarrow> animal_individual list \<Rightarrow> real" where
  "max_element_loop largest [] = largest"
| "max_element_loop largest (i # rest) =
     max_element_loop
       (if largest < get_fitness animal_individual_class i
        then get_fitness animal_individual_class i else largest) rest"

fun into_animals_loop ::
  "config \<Rightarrow> animal_individual list \<Rightarrow> random_generator
     \<Rightarrow> fault + (animal list \<times> random_generator)" where
  "into_animals_loop cfg [] random = Inr ([], random)"
| "into_animals_loop cfg (i # rest) random =
     (case into_animal cfg random i of
        (Inl f, random1) \<Rightarrow> Inl f
      | (Inr a, random1) \<Rightarrow>
          (case into_animals_loop cfg rest random1 of
             Inl f \<Rightarrow> Inl f
           | Inr (new_animals, random2) \<Rightarrow> Inr (a # new_animals, random2)))"

fun randomize_foods :: "food list \<Rightarrow> random_generator \<Rightarrow> food list \<times> random_generator" where
  "randomize_foods [] random = ([], random)"
| "randomize_foods (f # foods) random =
     (let (f', random1) = randomize_position f random;
          (foods', random2) = randomize_foods foods random1
      in (f' # foods', random2))"

text \<open>
  The first part of \<^verbatim>\<open>simulation::evolve\<close>: the animals as individuals, with the fitness
  inverted when \<^verbatim>\<open>config_.genetic.reverse\<close> is set. \<^verbatim>\<open>std::max_element\<close> over an empty
  vector returns the end iterator, which the code dereferences.
\<close>

definition snapshot_individuals :: "config \<Rightarrow> animal list \<Rightarrow> fault + animal_individual list" where
  "snapshot_individuals cfg animals =
     (let individuals = map from_animal animals
      in if reverse (genetic cfg) then
           (case individuals of
              [] \<Rightarrow> Inl undefined_behaviour
            | i # rest \<Rightarrow>
                (let max_fitness_found =
                       max_element_loop (get_fitness animal_individual_class i) rest
                 in Inr (map (invert_fitness max_fitness_found) individuals)))
         else Inr individuals)"

text \<open>
  \<^verbatim>\<open>simulation::evolve\<close>. The function changes the simulation and the generator: it returns
  both with its statistics, or the fault that ended the call.
\<close>

definition simulation_evolve ::
  "simulation \<Rightarrow> random_generator
     \<Rightarrow> fault + (simulation_statistics \<times> simulation \<times> random_generator)" where
  "simulation_evolve s random =
     (let s1 = s\<lparr>simulation_age := 0\<rparr>;
          s2 = s1\<lparr>simulation_generation := simulation_generation s1 + 1\<rparr>;
          cfg = simulation_config s2
      in case snapshot_individuals cfg (world_animals (simulation_world s2)) of
           Inl f \<Rightarrow> Inl f
         | Inr individuals \<Rightarrow>
             (let gen_algorithm =
                    \<lparr>selection = roulette_wheel_select real_arith (get_fitness animal_individual_class),
                     crossover = uniform_crossover (1 / 2),
                     mutation =
                       gaussian_mutation (mutation_chance (genetic cfg))
                         (mutation_coeff (genetic cfg))\<rparr>
              in case evolve animal_individual_class gen_algorithm individuals random of
                   (Inl f, random1) \<Rightarrow> Inl f
                 | (Inr (Inl e), random1) \<Rightarrow> Inl (runtime_error ''Evolution failed'')
                 | (Inr (Inr (evolved_individuals, evolution_stats)), random1) \<Rightarrow>
                     (case into_animals_loop cfg evolved_individuals random1 of
                        Inl f \<Rightarrow> Inl f
                      | Inr (new_animals, random2) \<Rightarrow>
                          (let (foods', random3) =
                                 randomize_foods (world_foods (simulation_world s2)) random2;
                               s3 = s2\<lparr>simulation_world :=
                                       \<lparr>world_animals = new_animals, world_foods = foods'\<rparr>\<rparr>
                           in Inr (\<lparr>generation = simulation_generation s3 - 1,
                                     ga_stats = evolution_stats\<rparr>, s3, random3)))))"

definition try_evolving ::
  "simulation \<Rightarrow> random_generator
     \<Rightarrow> fault + (simulation_statistics option \<times> simulation \<times> random_generator)" where
  "try_evolving s random =
     (let s1 = s\<lparr>simulation_age := simulation_age s + 1\<rparr>
      in if simulation_age s1 > generation_length (sim (simulation_config s1)) then
           (case simulation_evolve s1 random of
              Inl f \<Rightarrow> Inl f
            | Inr (stats, s2, random1) \<Rightarrow> Inr (Some stats, s2, random1))
         else Inr (None, s1, random))"

definition step ::
  "simulation \<Rightarrow> random_generator
     \<Rightarrow> fault + (simulation_statistics option \<times> simulation \<times> random_generator)" where
  "step s random =
     (let (s1, random1) = process_collisions s random
      in case process_brains s1 of
           Inl f \<Rightarrow> Inl f
         | Inr s2 \<Rightarrow> try_evolving (process_movements s2) random1)"


section \<open>Notions used to state the properties\<close>








text \<open>
  The weight of an individual on the roulette wheel, the larger of its fitness and
  \<open>0.00001\<close>; the total weight of a population, summed from its first individual on; and
  the cumulative weight up to and including index \<open>j\<close>. All are values of the arithmetic of
  \<^verbatim>\<open>float\<close>.
\<close>

definition roulette_weight :: "'f float_arith \<Rightarrow> ('i \<Rightarrow> 'f) \<Rightarrow> 'i \<Rightarrow> 'f" where
  "roulette_weight arith fitness_of ind =
     (if f_less arith (fitness_of ind) (f_val arith (1 / 100000)) then f_val arith (1 / 100000)
      else fitness_of ind)"

definition total_weight :: "'f float_arith \<Rightarrow> ('i \<Rightarrow> 'f) \<Rightarrow> 'i list \<Rightarrow> 'f" where
  "total_weight arith fitness_of population =
     foldl (f_add arith) (f_val arith 0) (map (roulette_weight arith fitness_of) population)"

definition cumulative_weight :: "'f float_arith \<Rightarrow> ('i \<Rightarrow> 'f) \<Rightarrow> 'i list \<Rightarrow> nat \<Rightarrow> 'f" where
  "cumulative_weight arith fitness_of population j =
     total_weight arith fitness_of (take (j + 1) population)"




section \<open>Concrete inputs\<close>

text \<open>
  A configuration with one photoreceptor and one hidden neuron, the network that
  \<^verbatim>\<open>from_weights\<close> builds for it from the genes \<open>[0, 0, 0, 0, 1, 0]\<close>, the animal that
  \<^verbatim>\<open>animal::from_chromosome\<close> builds from these genes when every draw of the generator gives
  the position \<open>p\<close>, and a simulation of one such animal and one food.
\<close>

definition example_config :: config where
  "example_config =
     \<lparr>brain_eye = \<lparr>fov_range = 1 / 4, fov_angle_deg = 225, num_cells = 1, num_neurons = 1\<rparr>,
      genetic = \<lparr>mutation_chance = 1 / 100, mutation_coeff = 3 / 10, reverse = False\<rparr>,
      sim = \<lparr>speed_min = 1 / 1000, speed_max = 5 / 1000, speed_accel = 2 / 10,
             rotation_accel_deg = 90, generation_length = 2500\<rparr>,
      world = \<lparr>num_foods = 1, num_animals = 1, food_size = 1 / 100, bird_size = 15 / 1000\<rparr>\<rparr>"

definition example_network :: network where
  "example_network =
     \<lparr>network_layers =
        [\<lparr>layer_neurons = [\<lparr>neuron_bias = 0, neuron_weights = [0]\<rparr>]\<rparr>,
         \<lparr>layer_neurons = [\<lparr>neuron_bias = 0, neuron_weights = [0]\<rparr>,
                           \<lparr>neuron_bias = 1, neuron_weights = [0]\<rparr>]\<rparr>]\<rparr>"

definition example_animal :: "real \<Rightarrow> nat \<Rightarrow> animal" where
  "example_animal p eaten =
     \<lparr>animal_position = \<lparr>x_value = p, y_value = p\<rparr>,
      animal_rotation = p * (314159265358979323846 / 100000000000000000000),
      animal_vision = [],
      animal_speed = 5 / 1000,
      animal_eye = \<lparr>eye_fov_range = 1 / 4, eye_fov_angle = 225 * k_degree_to_radian, eye_cells = 1\<rparr>,
      animal_brain = \<lparr>brain_speed_accel = 2 / 10, brain_rotation_accel = 90 * k_deg_to_rad,
                       brain_network = example_network\<rparr>,
      animal_food_eaten = eaten\<rparr>"

definition example_simulation :: "64 word \<Rightarrow> simulation" where
  "example_simulation age =
     \<lparr>simulation_config = example_config,
      simulation_world =
        \<lparr>world_animals = [example_animal (1 / 4) 3],
         world_foods = [\<lparr>food_position = \<lparr>x_value = 1 / 4, y_value = 3 / 4\<rparr>\<rparr>]\<rparr>,
      simulation_age = age,
      simulation_generation = 7\<rparr>"

text \<open>
  The genetic algorithm that \<^verbatim>\<open>simulation::evolve\<close> builds for this configuration, and a
  population of two individuals whose chromosomes differ in size.
\<close>

definition example_algorithm :: "animal_individual genetic_algorithm" where
  "example_algorithm =
     \<lparr>selection = roulette_wheel_select real_arith (get_fitness animal_individual_class),
      crossover = uniform_crossover (1 / 2),
      mutation = gaussian_mutation (1 / 100) (3 / 10)\<rparr>"

definition example_population :: "animal_individual list" where
  "example_population =
     [\<lparr>individual_chromosome = [1], individual_food_eaten = 1\<rparr>,
      \<lparr>individual_chromosome = [2, 3], individual_food_eaten = 1\<rparr>]"

text \<open>An animal whose eye has two cells while its network takes one input.\<close>

definition example_mismatched_animal :: animal where
  "example_mismatched_animal =
     (example_animal (1 / 4) 0)\<lparr>animal_eye :=
        \<lparr>eye_fov_range = 1 / 4, eye_fov_angle = 225 * k_degree_to_radian, eye_cells = 2\<rparr>\<rparr>"









section \<open>Properties of the neural network\<close>

lemma neuron_from_weights_to_weights:
  assumes "neuron_from_weights input_size w = Inr n"
  shows "neuron_to_weights n = w"
proof -
  from assms have len: "length w = input_size + 1"
    and n: "n = \<lparr>neuron_bias = w ! 0, neuron_weights = drop 1 w\<rparr>"
    by (auto simp: neuron_from_weights_def split: if_splits)
  from len obtain x xs where "w = x # xs" by (cases w) auto
  with n show ?thesis by (simp add: neuron_to_weights_def)
qed

lemma subspan_Inr:
  "subspan s offset count = Inr r \<Longrightarrow> r = take count (drop offset s) \<and> offset + count \<le> length s"
  by (auto simp: subspan_def split: if_splits)

lemma layer_from_weights_loop_flat:
  assumes "layer_from_weights_loop input_size w k off acc = Inr (Inr ns)"
  shows "concat (map neuron_to_weights ns) =
           concat (map neuron_to_weights acc) @ take (k * (input_size + 1)) (drop off w)"
  using assms
proof (induction k arbitrary: off acc)
  case 0
  then show ?case by simp
next
  case (Suc k)
  from Suc.prems obtain sp n where
    sp: "subspan w off (input_size + 1) = Inr sp" and
    n: "neuron_from_weights input_size sp = Inr n" and
    rest: "layer_from_weights_loop input_size w k (off + (input_size + 1)) (acc @ [n]) = Inr (Inr ns)"
    by (auto split: sum.splits)
  from subspan_Inr[OF sp] have sp_eq: "sp = take (input_size + 1) (drop off w)" by simp
  from neuron_from_weights_to_weights[OF n] have nw: "neuron_to_weights n = sp" .
  define m where "m = input_size + 1"
  have "take (m + k * m) (drop off w) = take m (drop off w) @ take (k * m) (drop m (drop off w))"
    by (rule take_add)
  moreover have "drop m (drop off w) = drop (off + m) w" by (simp add: add.commute)
  ultimately have split: "take (Suc k * m) (drop off w) =
        take m (drop off w) @ take (k * m) (drop (off + m) w)" by simp
  from Suc.IH[OF rest] nw sp_eq
  have "concat (map neuron_to_weights ns) =
        concat (map neuron_to_weights acc) @ (take m (drop off w) @ take (k * m) (drop (off + m) w))"
    by (simp add: m_def)
  then have "concat (map neuron_to_weights ns) =
        concat (map neuron_to_weights acc) @ take (Suc k * m) (drop off w)"
    by (simp only: split)
  then show ?case by (simp only: m_def)
qed

lemma layer_from_weights_flat:
  assumes "layer_from_weights input_size output_size w = Inr (Inr l)"
  shows "concat (map neuron_to_weights (layer_neurons l)) = take ((input_size + 1) * output_size) w"
proof -
  from assms obtain ns where
    loop: "layer_from_weights_loop input_size w output_size 0 [] = Inr (Inr ns)" and
    cr: "layer_create ns = Inr l"
    by (auto simp: layer_from_weights_def split: if_splits sum.splits)
  from cr have "layer_neurons l = ns" by (auto simp: layer_create_def split: if_splits)
  with layer_from_weights_loop_flat[OF loop] show ?thesis by (simp add: mult.commute)
qed

lemma flat_layers_snoc:
  "flat_layers (ls @ [l]) = flat_layers ls @ concat (map neuron_to_weights (layer_neurons l))"
  by (simp add: flat_layers_def)

lemma network_from_weights_loop_flat:
  "network_from_weights_loop topology w i off acc = Inr (Inr (ls, off')) \<Longrightarrow>
   off \<le> length w \<Longrightarrow>
   off \<le> off' \<and> off' \<le> length w \<and>
   flat_layers ls = flat_layers acc @ take (off' - off) (drop off w)"
proof (induction topology w i off acc rule: network_from_weights_loop.induct)
  case (1 topology weights i current_offset layers)
  show ?case
  proof (cases "i < length topology - 1")
    case False
    with "1.prems" show ?thesis
      by (subst (asm) network_from_weights_loop.simps) simp
  next
    case True
    define wpl where "wpl = (topology ! i + 1) * topology ! (i + 1)"
    from "1.prems"(1) True obtain sp l where
      sp: "subspan weights current_offset wpl = Inr sp" and
      l: "layer_from_weights (topology ! i) (topology ! (i + 1)) sp = Inr (Inr l)" and
      rest: "network_from_weights_loop topology weights (i + 1) (current_offset + wpl) (layers @ [l])
             = Inr (Inr (ls, off'))"
      by (subst (asm) network_from_weights_loop.simps)
         (simp add: Let_def wpl_def split: sum.splits layer_error.splits)
    from subspan_Inr[OF sp] have sp_eq: "sp = take wpl (drop current_offset weights)"
      and bound: "current_offset + wpl \<le> length weights" by simp_all
    from sp_eq bound have len_sp: "length sp = wpl" by simp
    from layer_from_weights_flat[OF l] len_sp
    have lw: "concat (map neuron_to_weights (layer_neurons l)) = sp"
      by (simp add: wpl_def)
    from "1.IH"[OF True wpl_def sp l refl rest bound]
    have ih: "current_offset + wpl \<le> off'" "off' \<le> length weights"
      "flat_layers ls = flat_layers (layers @ [l]) @
         take (off' - (current_offset + wpl)) (drop (current_offset + wpl) weights)"
      by simp_all
    have "take (wpl + (off' - (current_offset + wpl))) (drop current_offset weights) =
          take wpl (drop current_offset weights) @
          take (off' - (current_offset + wpl)) (drop wpl (drop current_offset weights))"
      by (rule take_add)
    moreover have "wpl + (off' - (current_offset + wpl)) = off' - current_offset"
      using ih(1) by simp
    moreover have "drop wpl (drop current_offset weights) = drop (current_offset + wpl) weights"
      by (simp add: add.commute)
    ultimately have "take (off' - current_offset) (drop current_offset weights) =
          sp @ take (off' - (current_offset + wpl)) (drop (current_offset + wpl) weights)"
      using sp_eq by simp
    with ih lw show ?thesis by (simp add: flat_layers_snoc)
  qed
qed

text \<open>
  C1. Whenever \<^verbatim>\<open>network::from_weights(topology, W)\<close> succeeds, \<^verbatim>\<open>weights()\<close> of the network it
  returns is exactly \<open>W\<close>: the order in which \<^verbatim>\<open>weights()\<close> flattens (bias first, neuron by
  neuron, layer by layer) is the order in which \<^verbatim>\<open>from_weights\<close> consumes.
\<close>

theorem network_weights_from_weights_roundtrip:
  assumes "network_from_weights topology W = Inr (Inr net)"
  shows "network_weights net = W"
proof -
  from assms obtain ls off' where
    loop: "network_from_weights_loop topology W 0 0 [] = Inr (Inr (ls, off'))" and
    off: "off' = length W" and net: "net = \<lparr>network_layers = ls\<rparr>"
    by (auto simp: network_from_weights_def split: if_splits sum.splits)
  from network_from_weights_loop_flat[OF loop] off
  have "flat_layers ls = W" by (simp add: flat_layers_def)
  with net show ?thesis by (simp add: network_weights_def flat_layers_def)
qed

lemma layer_from_weights_loop_numeral:
  "layer_from_weights_loop input_size w (numeral k) current_offset neurons =
   layer_from_weights_loop input_size w (Suc (pred_numeral k)) current_offset neurons"
  by (simp only: numeral_eq_Suc)

lemmas nn_eval = network_from_weights_def network_from_weights_loop.simps subspan_def
  layer_from_weights_def neuron_from_weights_def layer_create_def neuron_input_size_def
  Let_def layer_from_weights_loop_numeral

theorem network_weights_from_weights_roundtrip_witness:
  "network_from_weights [1, 1, 2] [1, 2, 3, 4, 5, 6] =
     Inr (Inr \<lparr>network_layers =
       [\<lparr>layer_neurons = [\<lparr>neuron_bias = 1, neuron_weights = [2]\<rparr>]\<rparr>,
        \<lparr>layer_neurons = [\<lparr>neuron_bias = 3, neuron_weights = [4]\<rparr>,
                          \<lparr>neuron_bias = 5, neuron_weights = [6]\<rparr>]\<rparr>]\<rparr>)
   \<and> network_weights \<lparr>network_layers =
       [\<lparr>layer_neurons = [\<lparr>neuron_bias = 1, neuron_weights = [2]\<rparr>]\<rparr>,
        \<lparr>layer_neurons = [\<lparr>neuron_bias = 3, neuron_weights = [4]\<rparr>,
                          \<lparr>neuron_bias = 5, neuron_weights = [6]\<rparr>]\<rparr>]\<rparr> = [1, 2, 3, 4, 5, 6]"
proof -
  have h: "network_from_weights [1, 1, 2] [1, 2, 3, 4, 5, 6] =
     Inr (Inr \<lparr>network_layers =
       [\<lparr>layer_neurons = [\<lparr>neuron_bias = 1, neuron_weights = [2]\<rparr>]\<rparr>,
        \<lparr>layer_neurons = [\<lparr>neuron_bias = 3, neuron_weights = [4]\<rparr>,
                          \<lparr>neuron_bias = 5, neuron_weights = [6]\<rparr>]\<rparr>]\<rparr>)"
    by (simp add: nn_eval)
  from h network_weights_from_weights_roundtrip[OF h] show ?thesis by simp
qed


section \<open>Properties of the genetic algorithm and of the simulation\<close>

lemma evolve_loop_length:
  "evolve_loop T ga population next_generation random = (Inr (Inr result), random') \<Longrightarrow>
   length next_generation \<le> length population \<Longrightarrow>
   length result = length population"
proof (induction T ga population next_generation random rule: evolve_loop.induct)
  case (1 T ga population next_generation random)
  show ?case
  proof (cases "length next_generation < length population")
    case False
    with "1.prems" show ?thesis
      by (subst (asm) evolve_loop.simps) simp
  next
    case True
    from "1.prems"(1) True obtain new_individual random1 where
      body: "evolve_offspring T ga population random = (Inr (Inr new_individual), random1)" and
      rest: "evolve_loop T ga population (next_generation @ [new_individual]) random1
               = (Inr (Inr result), random')"
      by (subst (asm) evolve_loop.simps) (auto split: prod.splits sum.splits)
    from True have len: "length (next_generation @ [new_individual]) \<le> length population" by simp
    from "1.IH"[OF True body[symmetric] refl refl rest len] show ?thesis .
  qed
qed

lemma evolve_length:
  assumes "evolve T ga population random = (Inr (Inr (next_generation, stats)), random')"
  shows "length next_generation = length population"
proof -
  from assms have "evolve_loop T ga population [] random = (Inr (Inr next_generation), random')"
    by (auto simp: evolve_def Let_def split: if_splits prod.splits sum.splits)
  from evolve_loop_length[OF this] show ?thesis by simp
qed

lemma evolve_state_after_loop:
  "evolve_state_after T ga population random k = Some (next_generation, random1) \<Longrightarrow>
   evolve_loop T ga population [] random = evolve_loop T ga population next_generation random1"
proof (induction k arbitrary: next_generation random1)
  case 0
  then show ?case by simp
next
  case (Suc k)
  from Suc.prems obtain prev random0 new_individual where
    st: "evolve_state_after T ga population random k = Some (prev, random0)" and
    lt: "length prev < length population" and
    body: "evolve_offspring T ga population random0 = (Inr (Inr new_individual), random1)" and
    nx: "next_generation = prev @ [new_individual]"
    by (auto split: option.splits if_splits prod.splits sum.splits)
  have "evolve_loop T ga population prev random0 =
        evolve_loop T ga population (prev @ [new_individual]) random1"
    using lt body by (subst evolve_loop.simps) simp
  with Suc.IH[OF st] nx show ?case by simp
qed


lemmas ga_eval = evolve_def evolve_loop.simps evolve_offspring_def roulette_wheel_select_def
  roulette_loop.simps generate_position_def generate_weight_def generate_rotation_def
  animal_individual_class_def k_min_individual_fitness_def uniform_crossover_def
  gaussian_mutation_def from_population_def float_max_def float_lowest_def float_of_real_def
  real_arith_def std_max_def

lemmas animal_eval = animal_from_chromosome_def brain_from_chromosome_def brain_topology_def
  brain_of_network_def animal_new_def eye_of_config_def into_animal_def as_chromosome_def
  brain_weights_def network_weights_def neuron_to_weights_def from_animal_def
  randomize_position_def

lemmas example_defs = example_simulation_def example_config_def example_animal_def
  example_network_def

lemma into_animals_loop_length:
  "into_animals_loop cfg individuals random = Inr (new_animals, random') \<Longrightarrow>
   length new_animals = length individuals"
  by (induction individuals arbitrary: random new_animals)
     (auto split: prod.splits sum.splits)

lemma snapshot_individuals_length:
  "snapshot_individuals cfg animals = Inr individuals \<Longrightarrow> length individuals = length animals"
  by (auto simp: snapshot_individuals_def Let_def split: if_splits list.splits)

lemma simulation_evolve_Inr:
  assumes "simulation_evolve s random = Inr (st, s', random')"
  obtains individuals evolved stats random1 new_animals random2 foods' where
    "snapshot_individuals (simulation_config s) (world_animals (simulation_world s)) = Inr individuals"
    "evolve animal_individual_class
       \<lparr>selection = roulette_wheel_select real_arith (get_fitness animal_individual_class),
        crossover = uniform_crossover (1 / 2),
        mutation = gaussian_mutation (mutation_chance (genetic (simulation_config s)))
                     (mutation_coeff (genetic (simulation_config s)))\<rparr> individuals random
       = (Inr (Inr (evolved, stats)), random1)"
    "into_animals_loop (simulation_config s) evolved random1 = Inr (new_animals, random2)"
    "randomize_foods (world_foods (simulation_world s)) random2 = (foods', random')"
    "s' = s\<lparr>simulation_age := 0, simulation_generation := simulation_generation s + 1,
             simulation_world := \<lparr>world_animals = new_animals, world_foods = foods'\<rparr>\<rparr>"
    "st = \<lparr>generation = simulation_generation s, ga_stats = stats\<rparr>"
proof -
  from assms obtain individuals where
    i: "snapshot_individuals (simulation_config s) (world_animals (simulation_world s)) = Inr individuals"
    by (cases "snapshot_individuals (simulation_config s) (world_animals (simulation_world s))")
       (simp_all add: simulation_evolve_def Let_def)
  let ?ga = "\<lparr>selection = roulette_wheel_select real_arith (get_fitness animal_individual_class),
        crossover = uniform_crossover (1 / 2),
        mutation = gaussian_mutation (mutation_chance (genetic (simulation_config s)))
                     (mutation_coeff (genetic (simulation_config s)))\<rparr>"
  from assms i obtain evolved stats random1 where
    e: "evolve animal_individual_class ?ga individuals random = (Inr (Inr (evolved, stats)), random1)"
    by (cases "evolve animal_individual_class ?ga individuals random")
       (auto simp: simulation_evolve_def Let_def split: sum.splits)
  from assms i e obtain new_animals random2 where
    a: "into_animals_loop (simulation_config s) evolved random1 = Inr (new_animals, random2)"
    by (cases "into_animals_loop (simulation_config s) evolved random1")
       (auto simp: simulation_evolve_def Let_def)
  obtain foods' random3 where
    f: "randomize_foods (world_foods (simulation_world s)) random2 = (foods', random3)"
    by (cases "randomize_foods (world_foods (simulation_world s)) random2")
  from assms i e a f have
    "s' = s\<lparr>simulation_age := 0, simulation_generation := simulation_generation s + 1,
             simulation_world := \<lparr>world_animals = new_animals, world_foods = foods'\<rparr>\<rparr>"
    "st = \<lparr>generation = simulation_generation s, ga_stats = stats\<rparr>" "random3 = random'"
    by (simp_all add: simulation_evolve_def Let_def)
  with i e a f that show thesis by blast
qed

lemma simulation_evolve_length:
  assumes "simulation_evolve s random = Inr (st, s', random')"
  shows "length (world_animals (simulation_world s')) = length (world_animals (simulation_world s))"
proof -
  from assms obtain individuals evolved stats random1 new_animals random2 foods' where
    i: "snapshot_individuals (simulation_config s) (world_animals (simulation_world s)) = Inr individuals" and
    e: "evolve animal_individual_class
       \<lparr>selection = roulette_wheel_select real_arith (get_fitness animal_individual_class),
        crossover = uniform_crossover (1 / 2),
        mutation = gaussian_mutation (mutation_chance (genetic (simulation_config s)))
                     (mutation_coeff (genetic (simulation_config s)))\<rparr> individuals random
       = (Inr (Inr (evolved, stats)), random1)" and
    a: "into_animals_loop (simulation_config s) evolved random1 = Inr (new_animals, random2)" and
    s': "s' = s\<lparr>simulation_age := 0, simulation_generation := simulation_generation s + 1,
             simulation_world := \<lparr>world_animals = new_animals, world_foods = foods'\<rparr>\<rparr>"
    by (rule simulation_evolve_Inr)
  from snapshot_individuals_length[OF i] evolve_length[OF e] into_animals_loop_length[OF a] s'
  show ?thesis by simp
qed

text \<open>
  C4. A successful \<^verbatim>\<open>genetic_algorithm::evolve\<close> returns a next generation that has as many
  individuals as the population it was given, and a \<^verbatim>\<open>simulation::evolve\<close> that returns has
  replaced the animals of the world by as many animals as there were.
\<close>

theorem evolve_preserves_population_size:
  "(evolve T ga population random = (Inr (Inr (next_generation, stats)), random')
      \<longrightarrow> length next_generation = length population) \<and>
   (simulation_evolve s random = Inr (st, s', random'')
      \<longrightarrow> length (world_animals (simulation_world s'))
            = length (world_animals (simulation_world s)))"
  using evolve_length simulation_evolve_length by blast

theorem evolve_preserves_population_size_witness:
  "evolve animal_individual_class
     \<lparr>selection = roulette_wheel_select real_arith (get_fitness animal_individual_class),
      crossover = uniform_crossover (1 / 2),
      mutation = gaussian_mutation (1 / 100) (3 / 10)\<rparr>
     [\<lparr>individual_chromosome = [0, 0, 0, 0, 1, 0], individual_food_eaten = 3\<rparr>] (sconst 0)
   = (Inr (Inr ([\<lparr>individual_chromosome = [0, 0, 0, 0, 1, 0], individual_food_eaten = 0\<rparr>],
        \<lparr>min_fitness = Finite 3, max_fitness = Finite 3,
                avg_fitness = Finite 3, median_fitness = Finite 3\<rparr>)), sconst 0)
   \<and> length [\<lparr>individual_chromosome = [0, 0, 0, 0, 1, 0], individual_food_eaten = 0\<rparr>]
       = length [\<lparr>individual_chromosome = [0, 0, 0, 0, 1, 0], individual_food_eaten = 3\<rparr>]
   \<and> simulation_evolve (example_simulation 2501) (sconst 0) =
     Inr (\<lparr>generation = 7,
           ga_stats = \<lparr>min_fitness = Finite 3, max_fitness = Finite 3,
                              avg_fitness = Finite 3, median_fitness = Finite 3\<rparr>\<rparr>,
          \<lparr>simulation_config = example_config,
           simulation_world =
             \<lparr>world_animals = [example_animal (1 / 2) 0],
              world_foods = [\<lparr>food_position = \<lparr>x_value = 1 / 2, y_value = 1 / 2\<rparr>\<rparr>]\<rparr>,
           simulation_age = 0,
           simulation_generation = 8\<rparr>, sconst 0)
   \<and> length (world_animals (simulation_world
         \<lparr>simulation_config = example_config,
          simulation_world =
            \<lparr>world_animals = [example_animal (1 / 2) 0],
             world_foods = [\<lparr>food_position = \<lparr>x_value = 1 / 2, y_value = 1 / 2\<rparr>\<rparr>]\<rparr>,
          simulation_age = 0,
          simulation_generation = 8\<rparr>))
       = length (world_animals (simulation_world (example_simulation 2501)))"
proof -
  have h1: "evolve animal_individual_class
     \<lparr>selection = roulette_wheel_select real_arith (get_fitness animal_individual_class),
      crossover = uniform_crossover (1 / 2),
      mutation = gaussian_mutation (1 / 100) (3 / 10)\<rparr>
     [\<lparr>individual_chromosome = [0, 0, 0, 0, 1, 0], individual_food_eaten = 3\<rparr>] (sconst 0)
   = (Inr (Inr ([\<lparr>individual_chromosome = [0, 0, 0, 0, 1, 0], individual_food_eaten = 0\<rparr>],
        \<lparr>min_fitness = Finite 3, max_fitness = Finite 3,
                avg_fitness = Finite 3, median_fitness = Finite 3\<rparr>)), sconst 0)"
    by (simp add: ga_eval)
  have h2: "simulation_evolve (example_simulation 2501) (sconst 0) =
     Inr (\<lparr>generation = 7,
           ga_stats = \<lparr>min_fitness = Finite 3, max_fitness = Finite 3,
                              avg_fitness = Finite 3, median_fitness = Finite 3\<rparr>\<rparr>,
          \<lparr>simulation_config = example_config,
           simulation_world =
             \<lparr>world_animals = [example_animal (1 / 2) 0],
              world_foods = [\<lparr>food_position = \<lparr>x_value = 1 / 2, y_value = 1 / 2\<rparr>\<rparr>]\<rparr>,
           simulation_age = 0,
           simulation_generation = 8\<rparr>, sconst 0)"
    by (simp add: simulation_evolve_def snapshot_individuals_def animal_eval nn_eval ga_eval example_defs)
  from evolve_preserves_population_size[THEN conjunct1, rule_format, OF h1]
       evolve_preserves_population_size[THEN conjunct2, rule_format, OF h2] h1 h2
  show ?thesis by blast
qed


lemma evolve_loop_offspring_error:
  assumes "length next_generation < length population"
    and "evolve_offspring T ga population random = (Inr (Inl e), random')"
  shows "evolve_loop T ga population next_generation random = (Inr (Inl e), random')"
  using assms by (subst evolve_loop.simps) simp

lemma evolve_error_at_state:
  assumes ne: "population \<noteq> []"
    and st: "evolve_state_after T ga population random k = Some (next_generation, random0)"
    and lt: "length next_generation < length population"
    and body: "evolve_offspring T ga population random0 = (Inr (Inl e), random')"
  shows "evolve T ga population random = (Inr (Inl e), random')"
proof -
  from evolve_state_after_loop[OF st] evolve_loop_offspring_error[OF lt body]
  have "evolve_loop T ga population [] random = (Inr (Inl e), random')" by simp
  with ne show ?thesis by (simp add: evolve_def)
qed

text \<open>
  C5. \<^verbatim>\<open>evolve\<close> returns an error for the empty population. For a non-empty population, at
  any iteration that the loop reaches: when the first or the second selection, the
  crossover, the mutation or the offspring factory returns an error, \<^verbatim>\<open>evolve\<close> returns that
  error, with the generator as that call left it, and no population.
\<close>

theorem evolve_aborts_on_first_error:
  "evolve T ga [] random =
     (Inr (Inl \<lparr>error_code = genetic_k_invalid_population_size,
                error_message = ''Population cannot be empty''\<rparr>), random)
   \<and> (population \<noteq> [] \<and>
        evolve_state_after T ga population random k = Some (next_generation, random0) \<and>
        length next_generation < length population \<and>
        (selection ga population random0 = (Inl e, random')
         \<or> (\<exists>a random1.
               selection ga population random0 = (Inr a, random1) \<and>
               selection ga population random1 = (Inl e, random'))
         \<or> (\<exists>a random1 b random2.
               selection ga population random0 = (Inr a, random1) \<and>
               selection ga population random1 = (Inr b, random2) \<and>
               a < length population \<and> b < length population \<and>
               crossover ga (get_chromosome T (population ! a))
                 (get_chromosome T (population ! b)) random2 = (Inl e, random'))
         \<or> (\<exists>a random1 b random2 c random3.
               selection ga population random0 = (Inr a, random1) \<and>
               selection ga population random1 = (Inr b, random2) \<and>
               a < length population \<and> b < length population \<and>
               crossover ga (get_chromosome T (population ! a))
                 (get_chromosome T (population ! b)) random2 = (Inr c, random3) \<and>
               mutation ga c random3 = (Inl e, random'))
         \<or> (\<exists>a random1 b random2 c random3 m.
               selection ga population random0 = (Inr a, random1) \<and>
               selection ga population random1 = (Inr b, random2) \<and>
               a < length population \<and> b < length population \<and>
               crossover ga (get_chromosome T (population ! a))
                 (get_chromosome T (population ! b)) random2 = (Inr c, random3) \<and>
               mutation ga c random3 = (Inr m, random') \<and>
               from_chromosome T m = Inl e))
      \<longrightarrow> evolve T ga population random = (Inr (Inl e), random'))"
proof (intro conjI impI)
  show "evolve T ga [] random =
     (Inr (Inl \<lparr>error_code = genetic_k_invalid_population_size,
                error_message = ''Population cannot be empty''\<rparr>), random)"
    by (simp add: evolve_def)
next
  assume h: "population \<noteq> [] \<and>
        evolve_state_after T ga population random k = Some (next_generation, random0) \<and>
        length next_generation < length population \<and>
        (selection ga population random0 = (Inl e, random')
         \<or> (\<exists>a random1.
               selection ga population random0 = (Inr a, random1) \<and>
               selection ga population random1 = (Inl e, random'))
         \<or> (\<exists>a random1 b random2.
               selection ga population random0 = (Inr a, random1) \<and>
               selection ga population random1 = (Inr b, random2) \<and>
               a < length population \<and> b < length population \<and>
               crossover ga (get_chromosome T (population ! a))
                 (get_chromosome T (population ! b)) random2 = (Inl e, random'))
         \<or> (\<exists>a random1 b random2 c random3.
               selection ga population random0 = (Inr a, random1) \<and>
               selection ga population random1 = (Inr b, random2) \<and>
               a < length population \<and> b < length population \<and>
               crossover ga (get_chromosome T (population ! a))
                 (get_chromosome T (population ! b)) random2 = (Inr c, random3) \<and>
               mutation ga c random3 = (Inl e, random'))
         \<or> (\<exists>a random1 b random2 c random3 m.
               selection ga population random0 = (Inr a, random1) \<and>
               selection ga population random1 = (Inr b, random2) \<and>
               a < length population \<and> b < length population \<and>
               crossover ga (get_chromosome T (population ! a))
                 (get_chromosome T (population ! b)) random2 = (Inr c, random3) \<and>
               mutation ga c random3 = (Inr m, random') \<and>
               from_chromosome T m = Inl e))"
  then have "evolve_offspring T ga population random0 = (Inr (Inl e), random')"
    by (auto simp: evolve_offspring_def)
  with h show "evolve T ga population random = (Inr (Inl e), random')"
    using evolve_error_at_state by blast
qed

theorem evolve_aborts_on_first_error_witness:
  "example_population \<noteq> []
   \<and> evolve_state_after animal_individual_class example_algorithm example_population
         ([0, 0, 0, 0, 0] @- sconst (1 / 2)) 1
       = Some ([\<lparr>individual_chromosome = [1], individual_food_eaten = 0\<rparr>], 0 ## sconst (1 / 2))
   \<and> length [\<lparr>individual_chromosome = [1], individual_food_eaten = 0\<rparr>]
       < length example_population
   \<and> selection example_algorithm example_population (0 ## sconst (1 / 2))
       = (Inr 0, sconst (1 / 2))
   \<and> selection example_algorithm example_population (sconst (1 / 2))
       = (Inr 1, sconst (1 / 2))
   \<and> 0 < length example_population \<and> 1 < length example_population
   \<and> crossover example_algorithm
         (get_chromosome animal_individual_class (example_population ! 0))
         (get_chromosome animal_individual_class (example_population ! 1)) (sconst (1 / 2))
       = (Inl \<lparr>error_code = genetic_k_invalid_parent_size,
               error_message = ''Parent chromosomes must have the same size''\<rparr>, sconst (1 / 2))
   \<and> evolve animal_individual_class example_algorithm example_population
         ([0, 0, 0, 0, 0] @- sconst (1 / 2))
       = (Inr (Inl \<lparr>error_code = genetic_k_invalid_parent_size,
                    error_message = ''Parent chromosomes must have the same size''\<rparr>),
          sconst (1 / 2))"
proof -
  have ne: "example_population \<noteq> []" by (simp add: example_population_def)
  have st: "evolve_state_after animal_individual_class example_algorithm example_population
         ([0, 0, 0, 0, 0] @- sconst (1 / 2)) 1
       = Some ([\<lparr>individual_chromosome = [1], individual_food_eaten = 0\<rparr>], 0 ## sconst (1 / 2))"
    by (simp add: ga_eval example_algorithm_def example_population_def)
  have lt: "length [\<lparr>individual_chromosome = [1], individual_food_eaten = 0\<rparr>]
       < length example_population" by (simp add: example_population_def)
  have sa: "selection example_algorithm example_population (0 ## sconst (1 / 2))
       = (Inr 0, sconst (1 / 2))"
    by (simp add: ga_eval example_algorithm_def example_population_def)
  have sb: "selection example_algorithm example_population (sconst (1 / 2))
       = (Inr 1, sconst (1 / 2))"
    by (simp add: ga_eval example_algorithm_def example_population_def)
  have ia: "0 < length example_population" and ib: "1 < length example_population"
    by (simp_all add: example_population_def)
  have cx: "crossover example_algorithm
         (get_chromosome animal_individual_class (example_population ! 0))
         (get_chromosome animal_individual_class (example_population ! 1)) (sconst (1 / 2))
       = (Inl \<lparr>error_code = genetic_k_invalid_parent_size,
               error_message = ''Parent chromosomes must have the same size''\<rparr>, sconst (1 / 2))"
    by (simp add: ga_eval example_algorithm_def example_population_def)
  from ne st lt sa sb ia ib cx
  have "evolve animal_individual_class example_algorithm example_population
         ([0, 0, 0, 0, 0] @- sconst (1 / 2))
       = (Inr (Inl \<lparr>error_code = genetic_k_invalid_parent_size,
                    error_message = ''Parent chromosomes must have the same size''\<rparr>),
          sconst (1 / 2))"
    by (intro evolve_aborts_on_first_error[THEN conjunct2, rule_format]) blast
  with ne st lt sa sb ia ib cx show ?thesis by blast
qed

lemma process_collisions_frame:
  "process_collisions s random = (s1, random1) \<Longrightarrow>
   simulation_config s1 = simulation_config s \<and> simulation_age s1 = simulation_age s \<and>
   simulation_generation s1 = simulation_generation s"
  by (auto simp: process_collisions_def Let_def split: prod.splits)

lemma process_brains_frame:
  "process_brains s = Inr s1 \<Longrightarrow>
   simulation_config s1 = simulation_config s \<and> simulation_age s1 = simulation_age s \<and>
   simulation_generation s1 = simulation_generation s"
  by (auto simp: process_brains_def split: sum.splits)

lemma process_movements_frame:
  "simulation_config (process_movements s) = simulation_config s \<and>
   simulation_age (process_movements s) = simulation_age s \<and>
   simulation_generation (process_movements s) = simulation_generation s"
  by (simp add: process_movements_def)

lemma simulation_evolve_counters:
  assumes "simulation_evolve s random = Inr (st, s', random')"
  shows "simulation_age s' = 0 \<and> simulation_generation s' = simulation_generation s + 1 \<and>
         generation st = simulation_generation s"
  using assms by (elim simulation_evolve_Inr) simp

text \<open>
  C9. A call of \<^verbatim>\<open>simulation::step\<close> that returns has incremented the age by one. When the
  incremented age exceeds \<^verbatim>\<open>generation_length\<close>, the result is the statistics that
  \<^verbatim>\<open>evolve\<close> returned, tagged with the generation before the call, the age is zero and
  the generation is one more than before; otherwise the result is empty and the
  generation is unchanged.
\<close>

theorem step_age_and_generation:
  assumes "step s random = Inr (result, s', random')"
  shows "if simulation_age s + 1 > generation_length (sim (simulation_config s))
         then simulation_age s' = 0 \<and>
              simulation_generation s' = simulation_generation s + 1 \<and>
              (\<exists>stats s0 random0.
                 result = Some stats \<and> generation stats = simulation_generation s \<and>
                 simulation_age s0 = simulation_age s + 1 \<and>
                 simulation_generation s0 = simulation_generation s \<and>
                 simulation_evolve s0 random0 = Inr (stats, s', random'))
         else simulation_age s' = simulation_age s + 1 \<and>
              simulation_generation s' = simulation_generation s \<and>
              result = None"
proof -
  obtain s1 random1 where c: "process_collisions s random = (s1, random1)"
    by (cases "process_collisions s random")
  from assms c obtain s2 where b: "process_brains s1 = Inr s2"
    and t: "try_evolving (process_movements s2) random1 = Inr (result, s', random')"
    by (cases "process_brains s1") (simp_all add: step_def)
  let ?s3 = "process_movements s2"
  from process_collisions_frame[OF c] process_brains_frame[OF b] process_movements_frame[of s2]
  have fr: "simulation_config ?s3 = simulation_config s" "simulation_age ?s3 = simulation_age s"
    "simulation_generation ?s3 = simulation_generation s" by simp_all
  let ?s0 = "?s3\<lparr>simulation_age := simulation_age ?s3 + 1\<rparr>"
  show ?thesis
  proof (cases "simulation_age s + 1 > generation_length (sim (simulation_config s))")
    case True
    with t fr obtain stats where
      e: "simulation_evolve ?s0 random1 = Inr (stats, s', random')" and r: "result = Some stats"
      by (cases "simulation_evolve ?s0 random1") (auto simp: try_evolving_def Let_def)
    from simulation_evolve_counters[OF e] fr
    have cnt: "simulation_age s' = 0" "simulation_generation s' = simulation_generation s + 1"
      "generation stats = simulation_generation s" by simp_all
    have s0: "simulation_age ?s0 = simulation_age s + 1"
      "simulation_generation ?s0 = simulation_generation s" using fr by simp_all
    have "\<exists>stats s0 random0.
            result = Some stats \<and> generation stats = simulation_generation s \<and>
            simulation_age s0 = simulation_age s + 1 \<and>
            simulation_generation s0 = simulation_generation s \<and>
            simulation_evolve s0 random0 = Inr (stats, s', random')"
      using r cnt(3) s0 e by blast
    with cnt True show ?thesis by simp
  next
    case False
    with t fr show ?thesis by (auto simp: try_evolving_def Let_def)
  qed
qed


lemma sqrt_quarter: "sqrt (1 / 4) = 1 / 2"
  by (simp add: real_sqrt_divide)

lemmas step_eval = step_def process_collisions_def process_brains_def process_movements_def
  try_evolving_def process_brain_def process_vision_def vector2d_minus_def vector2d_length_def
  brain_propagate_def network_propagate_def network_input_size_def layer_input_size_def
  layer_propagate_def neuron_propagate_def std_clamp_def k_deg_to_rad_def k_pi_def k_two_pi_def
  k_degree_to_radian_def sqrt_quarter power2_eq_square c_fmod_def c_trunc_def process_movement_def

theorem step_age_and_generation_witness:
  "step (example_simulation 2500) (sconst 0) =
     Inr (Some \<lparr>generation = 7,
           ga_stats = \<lparr>min_fitness = Finite 3, max_fitness = Finite 3,
                              avg_fitness = Finite 3, median_fitness = Finite 3\<rparr>\<rparr>,
          \<lparr>simulation_config = example_config,
           simulation_world =
             \<lparr>world_animals = [example_animal (1 / 2) 0],
              world_foods = [\<lparr>food_position = \<lparr>x_value = 1 / 2, y_value = 1 / 2\<rparr>\<rparr>]\<rparr>,
           simulation_age = 0,
           simulation_generation = 8\<rparr>, sconst 0)
   \<and> simulation_age (example_simulation 2500) + 1
       > generation_length (sim (simulation_config (example_simulation 2500)))
   \<and> simulation_generation (example_simulation 2500) + 1 = 8
   \<and> (\<exists>s0 random0.
         simulation_age s0 = simulation_age (example_simulation 2500) + 1 \<and>
         simulation_generation s0 = simulation_generation (example_simulation 2500) \<and>
         simulation_evolve s0 random0 =
           Inr (\<lparr>generation = 7,
                 ga_stats = \<lparr>min_fitness = Finite 3, max_fitness = Finite 3,
                              avg_fitness = Finite 3, median_fitness = Finite 3\<rparr>\<rparr>,
                \<lparr>simulation_config = example_config,
                 simulation_world =
                   \<lparr>world_animals = [example_animal (1 / 2) 0],
                    world_foods = [\<lparr>food_position = \<lparr>x_value = 1 / 2, y_value = 1 / 2\<rparr>\<rparr>]\<rparr>,
                 simulation_age = 0,
                 simulation_generation = 8\<rparr>, sconst 0))"
proof -
  have h: "step (example_simulation 2500) (sconst 0) =
     Inr (Some \<lparr>generation = 7,
           ga_stats = \<lparr>min_fitness = Finite 3, max_fitness = Finite 3,
                              avg_fitness = Finite 3, median_fitness = Finite 3\<rparr>\<rparr>,
          \<lparr>simulation_config = example_config,
           simulation_world =
             \<lparr>world_animals = [example_animal (1 / 2) 0],
              world_foods = [\<lparr>food_position = \<lparr>x_value = 1 / 2, y_value = 1 / 2\<rparr>\<rparr>]\<rparr>,
           simulation_age = 0,
           simulation_generation = 8\<rparr>, sconst 0)"
    by (simp add: step_eval simulation_evolve_def snapshot_individuals_def animal_eval nn_eval
        ga_eval example_defs)
  have gt: "simulation_age (example_simulation 2500) + 1
       > generation_length (sim (simulation_config (example_simulation 2500)))"
    by (simp add: example_simulation_def example_config_def)
  have g: "simulation_generation (example_simulation 2500) + 1 = 8"
    by (simp add: example_simulation_def)
  from step_age_and_generation[OF h] gt g h show ?thesis by auto
qed

section \<open>Properties of the animal\<close>

text \<open>
  C10. When the propagation through the brain fails, \<^verbatim>\<open>animal::process_brain\<close> returns
  normally with the animal unchanged but for its vision, which holds the new sensor
  reading.
\<close>

theorem process_brain_failure_frame:
  assumes "process_vision (animal_eye a) (animal_position a) (animal_rotation a) foods = Inr vision"
    and "brain_propagate (animal_brain a) vision = Inl e"
  shows "process_brain cfg foods a = Inr (a\<lparr>animal_vision := vision\<rparr>)"
  using assms by (simp add: process_brain_def)

theorem process_brain_failure_frame_witness:
  "process_vision (animal_eye example_mismatched_animal)
      (animal_position example_mismatched_animal) (animal_rotation example_mismatched_animal) []
     = Inr [0, 0]
   \<and> brain_propagate (animal_brain example_mismatched_animal) [0, 0]
     = Inl simulation_k_invalid_input_size
   \<and> process_brain example_config [] example_mismatched_animal
     = Inr (example_mismatched_animal\<lparr>animal_vision := [0, 0]\<rparr>)"
proof -
  have v: "process_vision (animal_eye example_mismatched_animal)
      (animal_position example_mismatched_animal) (animal_rotation example_mismatched_animal) []
     = Inr [0, 0]"
    by (simp add: process_vision_def example_mismatched_animal_def example_animal_def
        numeral_2_eq_2)
  have b: "brain_propagate (animal_brain example_mismatched_animal) [0, 0]
     = Inl simulation_k_invalid_input_size"
    by (simp add: brain_propagate_def network_propagate_def network_input_size_def
        layer_input_size_def neuron_input_size_def example_mismatched_animal_def
        example_animal_def example_network_def)
  from process_brain_failure_frame[OF v b] v b show ?thesis by simp
qed

text \<open>
  C3. \<^verbatim>\<open>animal::process_brain\<close> on an animal that \<^verbatim>\<open>animal::from_chromosome\<close> built, with no
  food in the world: the rotation before the call is in \<open>[0, 2\<pi>)\<close>, the brain returns the
  rotation delta \<open>-1\<close>, and the rotation after the call is negative, since \<^verbatim>\<open>std::fmod\<close>
  keeps the sign of its first argument.
\<close>

theorem process_brain_rotation_negative:
  "animal_from_chromosome example_config (sconst (- 1 / 2)) [0, 0, 0, 0, 1, 0]
     = (Inr (Inr (example_animal (1 / 4) 0)), sconst (- 1 / 2))
   \<and> 0 \<le> animal_rotation (example_animal (1 / 4) 0)
   \<and> animal_rotation (example_animal (1 / 4) 0) < k_two_pi
   \<and> brain_propagate (animal_brain (example_animal (1 / 4) 0)) [0] = Inr [0, - 1]
   \<and> process_brain example_config [] (example_animal (1 / 4) 0)
     = Inr ((example_animal (1 / 4) 0)
             \<lparr>animal_vision := [0],
              animal_speed := 5 / 1000,
              animal_rotation := - (42920367320510338077 / 200000000000000000000)\<rparr>)
   \<and> \<not> 0 \<le> animal_rotation ((example_animal (1 / 4) 0)
             \<lparr>animal_vision := [0],
              animal_speed := 5 / 1000,
              animal_rotation := - (42920367320510338077 / 200000000000000000000)\<rparr>)"
proof -
  have p: "\<not> pi < 2"
    using pi_ge_two by simp
  have "42920367320510338077 / (400000000000000000000 * pi) < 1"
    using pi_ge_two by (simp add: field_simps)
  moreover have "0 < 42920367320510338077 / (400000000000000000000 * pi)"
    by simp
  ultimately have c: "\<lceil>- (42920367320510338077 / (400000000000000000000 * pi))\<rceil> = 0"
    by (simp add: ceiling_eq_iff)
  have q: "\<not> pi \<le> 0" "\<not> pi < - 2" "157079632679489661923 < 400000000000000000000 * pi"
    using pi_ge_two by simp_all
  show ?thesis
    by (simp add: step_eval animal_eval nn_eval ga_eval example_defs p c q)
qed

text \<open>
  In general: when the brain returns the two deltas, the speed becomes the clamped sum and
  the rotation becomes \<^verbatim>\<open>std::fmod\<close> of the sum, which is the sum itself whenever the sum is
  negative and above \<open>-2\<pi>\<close>.
\<close>

lemma process_brain_updates:
  assumes "process_vision (animal_eye a) (animal_position a) (animal_rotation a) foods = Inr vision"
    and "brain_propagate (animal_brain a) vision = Inr [speed_delta, rotation_delta]"
  shows "process_brain cfg foods a =
     Inr (a\<lparr>animal_vision := vision,
            animal_speed :=
              std_clamp (animal_speed a + speed_delta) (speed_min (sim cfg)) (speed_max (sim cfg)),
            animal_rotation := c_fmod (animal_rotation a + rotation_delta) k_two_pi\<rparr>)"
  using assms by (simp add: process_brain_def Let_def)

lemma c_fmod_negative:
  assumes "- y < x" and "x < 0"
  shows "c_fmod x y = x"
proof -
  from assms have y: "0 < y" by simp
  with assms have "- 1 < x / y" "x / y < 0" by (simp_all add: field_simps)
  then have "\<lceil>x / y\<rceil> = 0" by (simp add: ceiling_eq_iff)
  with \<open>x / y < 0\<close> show ?thesis by (simp add: c_fmod_def c_trunc_def)
qed

section \<open>Properties of the uniform crossover\<close>

text \<open>
  C2. \<^verbatim>\<open>uniform_crossover::crossover\<close> with the swap probability \<open>0.1\<close>, when every draw of
  \<^verbatim>\<open>generate_weight\<close> is \<open>0\<close>, the middle of its range \<open>[-1, 1)\<close>: every gene of the child
  is the gene of the first parent.
\<close>

theorem uniform_crossover_low_probability_keeps_parent1:
  "uniform_crossover (1 / 10) [1, 2, 3, 4] [5, 6, 7, 8] (sconst 0) = (Inr [1, 2, 3, 4], sconst 0)"
  by (simp add: uniform_crossover_def generate_weight_def)

text \<open>
  The gene at position \<open>i\<close> is the first parent's exactly when the \<open>i\<close>-th draw of
  \<^verbatim>\<open>generate_weight\<close>, a value of \<open>[-1, 1)\<close>, is below the swap probability; parents of
  different sizes give the error.
\<close>

lemma uniform_crossover_loop_gene:
  "length parent1 = length parent2 \<Longrightarrow> i < length parent1 \<Longrightarrow>
   fst (uniform_crossover_loop p parent1 parent2 random) ! i
     = (if random !! i < p then parent1 ! i else parent2 ! i)"
proof (induction p parent1 parent2 random arbitrary: i rule: uniform_crossover_loop.induct)
  case (1 p g1 parent1 g2 parent2 random)
  show ?case
  proof (cases i)
    case 0
    then show ?thesis by (simp add: generate_weight_def split: prod.splits)
  next
    case (Suc j)
    with "1.prems" have "length parent1 = length parent2" "j < length parent1" by simp_all
    from "1.IH"[OF _ refl _ this, of "shd random" "stl random"] Suc
    show ?thesis by (auto simp add: generate_weight_def split: prod.splits)
  qed
qed simp_all

lemma uniform_crossover_size_mismatch:
  "length parent1 \<noteq> length parent2 \<Longrightarrow>
   uniform_crossover p parent1 parent2 random =
     (Inl \<lparr>error_code = genetic_k_invalid_parent_size,
           error_message = ''Parent chromosomes must have the same size''\<rparr>, random)"
  by (simp add: uniform_crossover_def)



section \<open>Properties of the statistics and of the roulette wheel\<close>













lemma std_max_weight:
  "std_max arith (f ind) (f_val arith k_min_individual_fitness) = roulette_weight arith f ind"
  by (simp add: std_max_def roulette_weight_def k_min_individual_fitness_def)

lemma total_fitness_loop_eq:
  "total_fitness_loop arith f population t
     = foldl (f_add arith) t (map (roulette_weight arith f) population)"
  by (induction population arbitrary: t) (simp_all add: std_max_weight)

lemma cumulative_weight_Suc:
  "i < length population \<Longrightarrow>
   f_add arith (total_weight arith f (take i population))
     (roulette_weight arith f (population ! i))
     = cumulative_weight arith f population i"
  by (simp add: cumulative_weight_def total_weight_def take_Suc_conv_app_nth)

lemma roulette_loop_first:
  "cumulative = total_weight arith f (take i population) \<Longrightarrow>
   i \<le> length population \<Longrightarrow>
   \<forall>j<i. \<not> f_ge arith (cumulative_weight arith f population j) point \<Longrightarrow>
   (case roulette_loop arith f population point i cumulative of
      Some k \<Rightarrow> k < length population \<and>
                f_ge arith (cumulative_weight arith f population k) point \<and>
                (\<forall>j<k. \<not> f_ge arith (cumulative_weight arith f population j) point)
    | None \<Rightarrow> \<forall>j<length population.
                \<not> f_ge arith (cumulative_weight arith f population j) point)"
proof (induction arith f population point i cumulative rule: roulette_loop.induct)
  case (1 arith f population point i cumulative)
  show ?case
  proof (cases "i < length population")
    case False
    with "1.prems" show ?thesis by (subst roulette_loop.simps) simp
  next
    case True
    let ?c = "f_add arith cumulative
                (std_max arith (f (population ! i)) (f_val arith k_min_individual_fitness))"
    from "1.prems"(1) cumulative_weight_Suc[OF True, of arith f]
    have c: "?c = cumulative_weight arith f population i"
      by (simp only: std_max_weight)
    show ?thesis
    proof (cases "f_ge arith ?c point")
      case ge: True
      with True c "1.prems"(3) show ?thesis by (subst roulette_loop.simps) (simp add: Let_def)
    next
      case lt: False
      have c': "?c = total_weight arith f (take (i + 1) population)"
        using c by (simp add: cumulative_weight_def)
      have all: "\<forall>j<i + 1. \<not> f_ge arith (cumulative_weight arith f population j) point"
        using "1.prems"(3) lt c by (auto simp: less_Suc_eq)
      from True have le: "i + 1 \<le> length population" by simp
      from "1.IH"[OF True refl _ c' le all] lt True
      show ?thesis by (subst roulette_loop.simps) (simp add: Let_def)
    qed
  qed
qed

lemma roulette_weight_real: "roulette_weight real_arith g ind = max (g ind) (1 / 100000)"
  by (simp add: roulette_weight_def real_arith_def max_def)

lemma total_weight_real:
  "total_weight real_arith g population = sum_list (map (\<lambda>ind. max (g ind) (1 / 100000)) population)"
proof -
  have fold: "foldl (+) t xs = t + sum_list xs" for t :: real and xs
    by (induction xs arbitrary: t) (simp_all add: add.assoc)
  have w: "roulette_weight real_arith g = (\<lambda>ind. max (g ind) (1 / 100000))"
    by (rule ext) (rule roulette_weight_real)
  have a: "f_add real_arith = (+)" "f_val real_arith 0 = 0"
    by (simp_all add: real_arith_def)
  show ?thesis by (simp only: total_weight_def w a fold add_0)
qed

lemma total_weight_real_positive:
  assumes "population \<noteq> []"
  shows "0 < total_weight real_arith g population"
proof -
  have nonneg: "0 \<le> sum_list (map (\<lambda>ind. max (g ind) (1 / 100000 :: real)) xs)" for xs
    by (induction xs) (simp_all add: le_max_iff_disj)
  from assms obtain x xs where p: "population = x # xs" by (cases population) auto
  have "0 < max (g x) (1 / 100000 :: real)" by (simp add: less_max_iff_disj)
  with nonneg[of xs] show ?thesis
    by (simp only: total_weight_real p list.map sum_list.Cons add_pos_nonneg)
qed

text \<open>
  C8. \<^verbatim>\<open>roulette_wheel_selection::select\<close> returns an error for the empty population. The
  weight of an individual is the larger of its fitness and \<open>0.00001\<close>. For a non-empty
  population (of at most \<^verbatim>\<open>INT_MAX\<close> individuals, which the \<^verbatim>\<open>int\<close> index of the loop can
  count) the call returns an index of the population, whatever the arithmetic of \<^verbatim>\<open>float\<close>
  computes: with \<open>u\<close> the product of the drawn position and the total weight, it is the
  first index whose cumulative weight compares \<^verbatim>\<open>>=\<close> to \<open>u\<close> when there is one, and the last
  index otherwise. In exact arithmetic, when the generator draws from \<open>[-1, 1)\<close>, \<open>u\<close> lies
  in \<open>[0, total weight)\<close>.
\<close>

theorem roulette_wheel_select_first_index:
  "roulette_wheel_select arith f [] random =
     (Inl \<lparr>error_code = genetic_k_invalid_population_size,
           error_message = ''Population must not be empty''\<rparr>, random)
   \<and> roulette_weight real_arith g ind = max (g ind) (1 / 100000)
   \<and> (population \<noteq> [] \<and> length population \<le> 2147483647 \<longrightarrow>
        (\<exists>i. roulette_wheel_select arith f population random = (Inr i, stl random) \<and>
             i < length population \<and>
             (if \<exists>j<length population.
                   f_ge arith (cumulative_weight arith f population j)
                     (f_mul arith (f_val arith ((shd random + 1) / 2))
                        (total_weight arith f population))
              then f_ge arith (cumulative_weight arith f population i)
                     (f_mul arith (f_val arith ((shd random + 1) / 2))
                        (total_weight arith f population)) \<and>
                   (\<forall>j<i. \<not> f_ge arith (cumulative_weight arith f population j)
                              (f_mul arith (f_val arith ((shd random + 1) / 2))
                                 (total_weight arith f population)))
              else i = length population - 1)))
   \<and> (population \<noteq> [] \<and> - 1 \<le> shd random \<and> shd random < 1 \<longrightarrow>
        0 \<le> f_mul real_arith (f_val real_arith ((shd random + 1) / 2))
               (total_weight real_arith g population) \<and>
        f_mul real_arith (f_val real_arith ((shd random + 1) / 2))
          (total_weight real_arith g population)
          < total_weight real_arith g population)"
proof (intro conjI impI)
  show "roulette_wheel_select arith f [] random =
     (Inl \<lparr>error_code = genetic_k_invalid_population_size,
           error_message = ''Population must not be empty''\<rparr>, random)"
    by (simp add: roulette_wheel_select_def)
  show "roulette_weight real_arith g ind = max (g ind) (1 / 100000)"
    by (rule roulette_weight_real)
next
  assume h: "population \<noteq> [] \<and> length population \<le> 2147483647"
  then have ne: "population \<noteq> []" by simp
  let ?u = "f_mul arith (f_val arith ((shd random + 1) / 2)) (total_weight arith f population)"
  let ?cum = "cumulative_weight arith f population"
  have sel: "roulette_wheel_select arith f population random =
       (case roulette_loop arith f population ?u 0 (f_val arith 0) of
          Some i \<Rightarrow> (Inr i, stl random)
        | None \<Rightarrow> (Inr (length population - 1), stl random))"
    using ne
    by (simp add: roulette_wheel_select_def Let_def generate_position_def total_fitness_loop_eq
        total_weight_def)
  have char: "case roulette_loop arith f population ?u 0 (f_val arith 0) of
      Some k \<Rightarrow> k < length population \<and> f_ge arith (?cum k) ?u \<and>
                (\<forall>j<k. \<not> f_ge arith (?cum j) ?u)
    | None \<Rightarrow> \<forall>j<length population. \<not> f_ge arith (?cum j) ?u"
    by (rule roulette_loop_first) (simp_all add: total_weight_def)
  show "\<exists>i. roulette_wheel_select arith f population random = (Inr i, stl random) \<and>
             i < length population \<and>
             (if \<exists>j<length population. f_ge arith (?cum j) ?u
              then f_ge arith (?cum i) ?u \<and> (\<forall>j<i. \<not> f_ge arith (?cum j) ?u)
              else i = length population - 1)"
  proof (cases "roulette_loop arith f population ?u 0 (f_val arith 0)")
    case None
    with char have "\<forall>j<length population. \<not> f_ge arith (?cum j) ?u" by simp
    then have "\<not> (\<exists>j<length population. f_ge arith (?cum j) ?u)" by blast
    with None sel ne show ?thesis by (intro exI[of _ "length population - 1"]) simp
  next
    case (Some k)
    with char have k: "k < length population" "f_ge arith (?cum k) ?u"
      "\<forall>j<k. \<not> f_ge arith (?cum j) ?u" by simp_all
    then have "\<exists>j<length population. f_ge arith (?cum j) ?u" by blast
    with Some sel k show ?thesis by (intro exI[of _ k]) simp
  qed
next
  assume h: "population \<noteq> [] \<and> - 1 \<le> shd random \<and> shd random < 1"
  let ?t = "total_weight real_arith g population"
  from h have t: "0 < ?t" by (simp add: total_weight_real_positive)
  from h have p: "0 \<le> (shd random + 1) / 2" "(shd random + 1) / 2 < 1" by simp_all
  have u: "f_mul real_arith (f_val real_arith ((shd random + 1) / 2)) ?t
             = (shd random + 1) / 2 * ?t"
    by (simp add: real_arith_def)
  from p(1) t show "0 \<le> f_mul real_arith (f_val real_arith ((shd random + 1) / 2)) ?t"
    by (simp only: u) simp
  from p(2) t show "f_mul real_arith (f_val real_arith ((shd random + 1) / 2)) ?t < ?t"
    by (simp only: u) simp
qed

theorem roulette_wheel_select_first_index_witness:
  "example_population \<noteq> [] \<and> length example_population \<le> 2147483647
   \<and> - 1 \<le> shd (sconst (1 / 2 :: real)) \<and> shd (sconst (1 / 2 :: real)) < 1
   \<and> roulette_wheel_select real_arith (get_fitness animal_individual_class) example_population
        (sconst (1 / 2)) = (Inr 1, sconst (1 / 2))
   \<and> 1 < length example_population
   \<and> f_ge real_arith
        (cumulative_weight real_arith (get_fitness animal_individual_class) example_population 1)
        (f_mul real_arith (f_val real_arith ((shd (sconst (1 / 2)) + 1) / 2))
           (total_weight real_arith (get_fitness animal_individual_class) example_population))
   \<and> \<not> f_ge real_arith
        (cumulative_weight real_arith (get_fitness animal_individual_class) example_population 0)
        (f_mul real_arith (f_val real_arith ((shd (sconst (1 / 2)) + 1) / 2))
           (total_weight real_arith (get_fitness animal_individual_class) example_population))
   \<and> 0 \<le> f_mul real_arith (f_val real_arith ((shd (sconst (1 / 2)) + 1) / 2))
            (total_weight real_arith (get_fitness animal_individual_class) example_population)
   \<and> f_mul real_arith (f_val real_arith ((shd (sconst (1 / 2)) + 1) / 2))
         (total_weight real_arith (get_fitness animal_individual_class) example_population)
       < total_weight real_arith (get_fitness animal_individual_class) example_population
   \<and> roulette_wheel_select (real_arith\<lparr>f_ge := \<lambda>a b. False\<rparr>)
        (get_fitness animal_individual_class) example_population (sconst (- 1 / 2))
       = (Inr (length example_population - 1), sconst (- 1 / 2))"
proof -
  let ?f = "get_fitness animal_individual_class"
  let ?u = "f_mul real_arith (f_val real_arith ((shd (sconst (1 / 2)) + 1) / 2))
              (total_weight real_arith ?f example_population)"
  let ?nan = "real_arith\<lparr>f_ge := \<lambda>a b. False\<rparr>"
  have ne: "example_population \<noteq> [] \<and> length example_population \<le> 2147483647"
    by (simp add: example_population_def)
  have rg: "- 1 \<le> shd (sconst (1 / 2 :: real)) \<and> shd (sconst (1 / 2 :: real)) < 1" by simp
  have sel: "roulette_wheel_select real_arith ?f example_population (sconst (1 / 2))
               = (Inr 1, sconst (1 / 2))"
    by (simp add: roulette_wheel_select_def roulette_loop.simps generate_position_def
        animal_individual_class_def k_min_individual_fitness_def example_population_def
        real_arith_def std_max_def)
  have ex: "\<exists>j<length example_population.
              f_ge real_arith (cumulative_weight real_arith ?f example_population j) ?u"
    by (intro exI[of _ 1])
       (simp add: cumulative_weight_def total_weight_def roulette_weight_def
          animal_individual_class_def example_population_def real_arith_def)
  note t = roulette_wheel_select_first_index[of real_arith ?f "sconst (1 / 2)" ?f _
      example_population]
  from t[THEN conjunct2, THEN conjunct2, THEN conjunct1, rule_format, OF ne]
  obtain i where i: "roulette_wheel_select real_arith ?f example_population (sconst (1 / 2))
                       = (Inr i, stl (sconst (1 / 2)))"
    "i < length example_population"
    "if \<exists>j<length example_population.
          f_ge real_arith (cumulative_weight real_arith ?f example_population j) ?u
     then f_ge real_arith (cumulative_weight real_arith ?f example_population i) ?u \<and>
          (\<forall>j<i. \<not> f_ge real_arith (cumulative_weight real_arith ?f example_population j) ?u)
     else i = length example_population - 1"
    by blast
  from i(1) sel have i1: "i = 1" by simp
  from i(3) ex have "f_ge real_arith (cumulative_weight real_arith ?f example_population i) ?u"
    "\<forall>j<i. \<not> f_ge real_arith (cumulative_weight real_arith ?f example_population j) ?u"
    by simp_all
  with i1 have c: "f_ge real_arith (cumulative_weight real_arith ?f example_population 1) ?u"
    "\<not> f_ge real_arith (cumulative_weight real_arith ?f example_population 0) ?u"
    by simp_all
  from i(2) i1 have l: "1 < length example_population" by simp
  note n = roulette_wheel_select_first_index[of ?nan ?f "sconst (- 1 / 2)" ?f _
      example_population]
  from n[THEN conjunct2, THEN conjunct2, THEN conjunct1, rule_format, OF ne]
  obtain k where k: "roulette_wheel_select ?nan ?f example_population (sconst (- 1 / 2))
                       = (Inr k, stl (sconst (- 1 / 2)))"
    "if \<exists>j<length example_population.
          f_ge ?nan (cumulative_weight ?nan ?f example_population j)
            (f_mul ?nan (f_val ?nan ((shd (sconst (- 1 / 2)) + 1) / 2))
               (total_weight ?nan ?f example_population))
     then f_ge ?nan (cumulative_weight ?nan ?f example_population k)
            (f_mul ?nan (f_val ?nan ((shd (sconst (- 1 / 2)) + 1) / 2))
               (total_weight ?nan ?f example_population)) \<and>
          (\<forall>j<k. \<not> f_ge ?nan (cumulative_weight ?nan ?f example_population j)
                     (f_mul ?nan (f_val ?nan ((shd (sconst (- 1 / 2)) + 1) / 2))
                        (total_weight ?nan ?f example_population)))
     else k = length example_population - 1"
    by blast
  from k(2) have "k = length example_population - 1" by simp
  with k(1) have fb: "roulette_wheel_select ?nan ?f example_population (sconst (- 1 / 2))
                        = (Inr (length example_population - 1), sconst (- 1 / 2))"
    by simp
  from t[THEN conjunct2, THEN conjunct2, THEN conjunct2, rule_format,
         OF conjI[OF ne[THEN conjunct1] rg]]
    ne rg sel c l fb
  show ?thesis by blast
qed

section \<open>Properties of the eye\<close>








































end
